theory Spec2Isabelle
  imports Main "HOL-Library.Char_ord" "HOL-Library.List_Lexorder"
begin

section \<open>Exceptions\<close>

text \<open>
  The exception classes of \<^verbatim>\<open>sub2md/utils/Exceptions.py\<close>, together with the
  built-in and library exceptions that the modelled code can meet: \<open>ValueError\<close>,
  \<open>TypeError\<close>, \<open>IndexError\<close>, \<open>KeyError\<close>, \<open>OSError\<close> and the HTTP client's transport error.
\<close>

datatype error =
    NetworkError | ContentError | CacheError | FileSystemError
  | ConfigurationError | ValidationError
  | ValueError | TypeError | IndexError | KeyError | OSError | ClientError

section \<open>Strings\<close>

text \<open>
  Python strings are modelled as \<open>string\<close>, read as the UTF-8 bytes of the text. The
  characters that the code names (separators, reserved characters, signs) are ASCII, and
  an ASCII byte never occurs inside the encoding of another code point, so a test for one
  of them on the bytes agrees with Python's on the code points. White space and decimal
  digits outside ASCII are recognised by their encodings.
\<close>

text \<open>\<^verbatim>\<open>s.split(sep)\<close> for a separator of one character: never the empty list.\<close>

fun split_on :: "char \<Rightarrow> string \<Rightarrow> string list" where
  "split_on sep [] = [[]]"
| "split_on sep (c # cs) =
     (if c = sep then [] # split_on sep cs
      else (case split_on sep cs of
              [] \<Rightarrow> [[c]]
            | p # ps \<Rightarrow> (c # p) # ps))"

section \<open>Writer name: \<^verbatim>\<open>SubstackScraper._extract_main_part\<close>\<close>

text \<open>
  \<^verbatim>\<open>urlparse(url).netloc\<close> of the standard library, as \<^verbatim>\<open>urllib.parse.urlsplit\<close>
  computes it: leading control characters and spaces are stripped, tabs and newlines
  removed, a well-formed scheme and its colon are cut off, and if the rest starts with
  \<^verbatim>\<open>//\<close> the netloc runs up to the first of \<^verbatim>\<open>/ ? #\<close>. The library's checks of a
  bracketed host and of a netloc that is not ASCII are the parameter \<open>netloc_ok\<close>; they
  raise \<open>ValueError\<close>.
\<close>

definition c0_control_or_space :: "char \<Rightarrow> bool" where
  "c0_control_or_space c = ((of_char c :: nat) \<le> 32)"

definition unsafe_url_byte :: "char \<Rightarrow> bool" where
  "unsafe_url_byte c = (c = CHR 0x09 \<or> c = CHR 0x0A \<or> c = CHR 0x0D)"

definition ascii_alpha :: "char \<Rightarrow> bool" where
  "ascii_alpha c = (let n = (of_char c :: nat) in (65 \<le> n \<and> n \<le> 90) \<or> (97 \<le> n \<and> n \<le> 122))"

definition ascii_digit :: "char \<Rightarrow> bool" where
  "ascii_digit c = (let n = (of_char c :: nat) in 48 \<le> n \<and> n \<le> 57)"

definition scheme_char :: "char \<Rightarrow> bool" where
  "scheme_char c = (ascii_alpha c \<or> ascii_digit c \<or> c = CHR ''+'' \<or> c = CHR ''-'' \<or> c = CHR ''.'')"

definition strip_scheme :: "string \<Rightarrow> string" where
  "strip_scheme url =
     (let pre = takeWhile (\<lambda>c. c \<noteq> CHR '':'') url in
      case pre of
        [] \<Rightarrow> url
      | c # _ \<Rightarrow>
          if length pre < length url \<and> ascii_alpha c \<and> list_all scheme_char pre
          then drop (length pre + 1) url
          else url)"

definition splitnetloc :: "string \<Rightarrow> string" where
  "splitnetloc url =
     takeWhile (\<lambda>c. c \<noteq> CHR ''/'' \<and> c \<noteq> CHR ''?'' \<and> c \<noteq> CHR ''#'') (drop 2 url)"

definition is_ascii :: "string \<Rightarrow> bool" where
  "is_ascii s = list_all (\<lambda>c. (of_char c :: nat) < 128) s"

definition urlparse_netloc :: "(string \<Rightarrow> bool) \<Rightarrow> string \<Rightarrow> error + string" where
  "urlparse_netloc netloc_ok url0 =
     (let url = strip_scheme (filter (\<lambda>c. \<not> unsafe_url_byte c) (dropWhile c0_control_or_space url0)) in
      if take 2 url = ''//'' then
        (let netloc = splitnetloc url;
             lb = (CHR ''['' \<in> set netloc);
             rb = (CHR '']'' \<in> set netloc) in
         if lb \<noteq> rb then Inl ValueError
         else if (lb \<or> \<not> is_ascii netloc) \<and> \<not> netloc_ok netloc then Inl ValueError
         else Inr netloc)
      else Inr [])"

text \<open>
  \<^verbatim>\<open>_extract_main_part\<close>: the host is split at the dots and the part at index
  \<^verbatim>\<open>len(parts) // 2\<close> is returned; every exception becomes a \<open>ValidationError\<close>.
\<close>

definition extract_main_part :: "(string \<Rightarrow> bool) \<Rightarrow> string \<Rightarrow> error + string" where
  "extract_main_part netloc_ok url =
     (case urlparse_netloc netloc_ok url of
        Inl e \<Rightarrow> Inl ValidationError
      | Inr netloc \<Rightarrow>
          (let parts = split_on CHR ''.'' netloc in
           if parts = [] then Inl ValidationError
           else (let middle_index = length parts div 2 in
                 if middle_index < length parts then Inr (parts ! middle_index)
                 else Inl ValidationError)))"

section \<open>Parsed documents\<close>

text \<open>
  The HTML library is an external collaborator. A parsed document is modelled as the tree
  the code traverses: an element has a tag name, the values of its \<^verbatim>\<open>class\<close> attribute
  and its children; a leaf is a piece of text.
\<close>

datatype node = Element string "string list" "node list" | NavigableString string

text \<open>The proper descendants of a node in document order, as \<^verbatim>\<open>find\<close> visits them.\<close>

fun descendants :: "node \<Rightarrow> node list" where
  "descendants (NavigableString s) = []"
| "descendants (Element t cs kids) = concat (map (\<lambda>k. k # descendants k) kids)"

fun is_tag :: "string \<Rightarrow> node \<Rightarrow> bool" where
  "is_tag name (NavigableString s) = False"
| "is_tag name (Element t cs kids) = (t = name)"

fun has_class :: "string \<Rightarrow> node \<Rightarrow> bool" where
  "has_class c (NavigableString s) = False"
| "has_class c (Element t cs kids) = (c \<in> set cs)"

text \<open>\<^verbatim>\<open>soup.find(...)\<close>: the first descendant that matches, or \<open>None\<close>.\<close>

definition find_first :: "(node \<Rightarrow> bool) \<Rightarrow> node \<Rightarrow> node option" where
  "find_first P soup = List.find P (descendants soup)"

text \<open>\<^verbatim>\<open>elem.text\<close>: the texts below the element, joined.\<close>

fun text_of :: "node \<Rightarrow> string" where
  "text_of (NavigableString s) = s"
| "text_of (Element t cs kids) = concat (map text_of kids)"

text \<open>
  \<^verbatim>\<open>str.strip()\<close> removes the white space of Unicode from both ends. These are the
  UTF-8 encodings of the code points that Python counts as white space: \<open>U+0009\<close> to
  \<open>U+000D\<close>, \<open>U+001C\<close> to \<open>U+0020\<close>, \<open>U+0085\<close>, \<open>U+00A0\<close>, \<open>U+1680\<close>, \<open>U+2000\<close> to
  \<open>U+200A\<close>, \<open>U+2028\<close>, \<open>U+2029\<close>, \<open>U+202F\<close>, \<open>U+205F\<close> and \<open>U+3000\<close>.
\<close>

definition whitespace_encodings :: "string list" where
  "whitespace_encodings =
     [[CHR 0x09], [CHR 0x0A], [CHR 0x0B], [CHR 0x0C], [CHR 0x0D],
      [CHR 0x1C], [CHR 0x1D], [CHR 0x1E], [CHR 0x1F], [CHR 0x20],
      [CHR 0xC2, CHR 0x85], [CHR 0xC2, CHR 0xA0],
      [CHR 0xE1, CHR 0x9A, CHR 0x80],
      [CHR 0xE2, CHR 0x80, CHR 0x80], [CHR 0xE2, CHR 0x80, CHR 0x81],
      [CHR 0xE2, CHR 0x80, CHR 0x82], [CHR 0xE2, CHR 0x80, CHR 0x83],
      [CHR 0xE2, CHR 0x80, CHR 0x84], [CHR 0xE2, CHR 0x80, CHR 0x85],
      [CHR 0xE2, CHR 0x80, CHR 0x86], [CHR 0xE2, CHR 0x80, CHR 0x87],
      [CHR 0xE2, CHR 0x80, CHR 0x88], [CHR 0xE2, CHR 0x80, CHR 0x89],
      [CHR 0xE2, CHR 0x80, CHR 0x8A],
      [CHR 0xE2, CHR 0x80, CHR 0xA8], [CHR 0xE2, CHR 0x80, CHR 0xA9],
      [CHR 0xE2, CHR 0x80, CHR 0xAF], [CHR 0xE2, CHR 0x81, CHR 0x9F],
      [CHR 0xE3, CHR 0x80, CHR 0x80]]"

text \<open>
  Encodings from the list are taken off the front for as long as one of them is a
  prefix. In well-formed UTF-8 an encoding that ends the string is its last code point,
  so the same function on the reversed string strips the other end.
\<close>

function strip_leading :: "string list \<Rightarrow> string \<Rightarrow> string" where
  "strip_leading encs s =
     (case List.find (\<lambda>w. w \<noteq> [] \<and> take (length w) s = w) encs of
        None \<Rightarrow> s
      | Some w \<Rightarrow> strip_leading encs (drop (length w) s))"
  by pat_completeness auto
termination
proof (relation "measure (\<lambda>(encs, s). length s)")
  show "wf (measure (\<lambda>(encs, s). length s))"
    by simp
next
  fix encs :: "string list" and s w :: string
  assume "List.find (\<lambda>w. w \<noteq> [] \<and> take (length w) s = w) encs = Some w"
  then have w: "w \<noteq> []" "take (length w) s = w"
    by (auto simp: find_Some_iff)
  then have "s \<noteq> []"
    by auto
  with w show "((encs, drop (length w) s), (encs, s)) \<in> measure (\<lambda>(encs, s). length s)"
    by simp
qed

definition strip :: "string \<Rightarrow> string" where
  "strip s =
     rev (strip_leading (map rev whitespace_encodings)
            (rev (strip_leading whitespace_encodings s)))"

subsection \<open>\<^verbatim>\<open>int(text)\<close>\<close>

text \<open>
  Python's \<^verbatim>\<open>int\<close> on a string works in two steps. First the string is brought to
  ASCII: a code point below 127 stays, white space of Unicode becomes a space, a decimal
  digit of Unicode becomes the ASCII digit of its value, and any other code point makes
  the conversion fail. The decimal values of the code points from 127 on come from the
  Unicode database of the interpreter, which is the parameter \<open>decimal\<close>, a function on
  the UTF-8 encoding of one code point.
\<close>

definition utf8_length :: "char \<Rightarrow> nat" where
  "utf8_length c =
     (let n = (of_char c :: nat) in
      if n < 0xC0 then 1 else if n < 0xE0 then 2 else if n < 0xF0 then 3 else 4)"

fun decimal_and_space_to_ascii :: "(string \<Rightarrow> nat option) \<Rightarrow> string \<Rightarrow> string option" where
  "decimal_and_space_to_ascii decimal [] = Some []"
| "decimal_and_space_to_ascii decimal (c # cs) =
     (if (of_char c :: nat) < 127
      then map_option ((#) c) (decimal_and_space_to_ascii decimal cs)
      else if c # take (utf8_length c - 1) cs \<in> set whitespace_encodings
      then map_option ((#) CHR '' '')
             (decimal_and_space_to_ascii decimal (drop (utf8_length c - 1) cs))
      else (case decimal (c # take (utf8_length c - 1) cs) of
              None \<Rightarrow> None
            | Some v \<Rightarrow>
                if v < 10
                then map_option ((#) (char_of (48 + v)))
                       (decimal_and_space_to_ascii decimal (drop (utf8_length c - 1) cs))
                else None))"

text \<open>
  Then the ASCII string is read: the white space of C (\<open>0x09\<close> to \<open>0x0D\<close> and the space)
  is skipped at both ends, one sign may come first, and the rest is decimal digits in
  groups separated by single underscores. Any other text raises \<open>ValueError\<close> (\<open>None\<close>
  here), and so does a literal of more than \<open>int_max_str_digits\<close> digits (the default
  limit of CPython 3.11).
\<close>

definition py_isspace :: "char \<Rightarrow> bool" where
  "py_isspace c = (c \<in> {CHR 0x09, CHR 0x0A, CHR 0x0B, CHR 0x0C, CHR 0x0D, CHR 0x20})"

definition int_max_str_digits :: nat where
  "int_max_str_digits = 4300"

definition digit_value :: "char \<Rightarrow> int" where
  "digit_value c = int (of_char c) - 48"

definition digits_value :: "string \<Rightarrow> int" where
  "digits_value ds = foldl (\<lambda>a c. 10 * a + digit_value c) 0 ds"

definition literal_digits :: "string \<Rightarrow> string option" where
  "literal_digits body =
     (let groups = split_on CHR ''_'' body in
      if list_all (\<lambda>g. g \<noteq> [] \<and> list_all ascii_digit g) groups
      then Some (concat groups) else None)"

definition unsigned_int :: "string \<Rightarrow> int option" where
  "unsigned_int body =
     (case literal_digits body of
        None \<Rightarrow> None
      | Some ds \<Rightarrow> if length ds > int_max_str_digits then None else Some (digits_value ds))"

definition long_from_string :: "string \<Rightarrow> int option" where
  "long_from_string t =
     (case rev (dropWhile py_isspace (rev (dropWhile py_isspace t))) of
        [] \<Rightarrow> None
      | c # body \<Rightarrow>
          if c = CHR ''-'' then map_option uminus (unsigned_int body)
          else if c = CHR ''+'' then unsigned_int body
          else unsigned_int (c # body))"

definition py_int :: "(string \<Rightarrow> nat option) \<Rightarrow> string \<Rightarrow> int option" where
  "py_int decimal s =
     (case decimal_and_space_to_ascii decimal s of
        None \<Rightarrow> None
      | Some t \<Rightarrow> long_from_string t)"

section \<open>Extraction: \<^verbatim>\<open>SubstackScraper.extract_post_data\<close>\<close>

text \<open>The constants of \<^verbatim>\<open>CONTENT\<close> in \<^verbatim>\<open>utils/Config.py\<close>.\<close>

definition CONTENT_DIV_CLASSES :: "string list" where
  "CONTENT_DIV_CLASSES = [''body'', ''post-content'']"

definition TITLE_TAG :: string where "TITLE_TAG = ''h1''"
definition SUBTITLE_TAG :: string where "SUBTITLE_TAG = ''h2''"
definition DATE_TAG :: string where "DATE_TAG = ''time''"
definition LIKE_COUNT_CLASS :: string where "LIKE_COUNT_CLASS = ''like-count''"
definition PAID_CONTENT_CLASS :: string where "PAID_CONTENT_CLASS = ''paid-content''"

definition REMOVE_ELEMENTS :: "string list" where
  "REMOVE_ELEMENTS = [''script'', ''style'', ''iframe'']"

text \<open>
  \<^verbatim>\<open>_find_content_div\<close>: the classes are tried in order, and the first class that has a
  matching \<^verbatim>\<open>div\<close> decides. No match raises \<open>ContentError\<close> (\<open>None\<close> here).
\<close>

fun find_div_by_classes :: "string list \<Rightarrow> node \<Rightarrow> node option" where
  "find_div_by_classes [] soup = None"
| "find_div_by_classes (c # cs) soup =
     (case find_first (\<lambda>n. is_tag ''div'' n \<and> has_class c n) soup of
        Some d \<Rightarrow> Some d
      | None \<Rightarrow> find_div_by_classes cs soup)"

definition find_content_div :: "node \<Rightarrow> node option" where
  "find_content_div soup = find_div_by_classes CONTENT_DIV_CLASSES soup"

definition extract_title :: "node \<Rightarrow> string" where
  "extract_title soup =
     (case find_first (is_tag TITLE_TAG) soup of
        Some e \<Rightarrow> strip (text_of e) | None \<Rightarrow> ''Untitled'')"

definition extract_subtitle :: "node \<Rightarrow> string" where
  "extract_subtitle content_div =
     (case find_first (is_tag SUBTITLE_TAG) content_div of
        Some e \<Rightarrow> strip (text_of e) | None \<Rightarrow> [])"

definition extract_date :: "node \<Rightarrow> string" where
  "extract_date soup =
     (case find_first (is_tag DATE_TAG) soup of
        Some e \<Rightarrow> strip (text_of e) | None \<Rightarrow> [])"

text \<open>\<^verbatim>\<open>_extract_like_count\<close>: a \<open>ValueError\<close> of \<^verbatim>\<open>int\<close> and a missing element both give 0.\<close>

definition like_elem :: "node \<Rightarrow> node option" where
  "like_elem soup = find_first (\<lambda>n. is_tag ''span'' n \<and> has_class LIKE_COUNT_CLASS n) soup"

definition extract_like_count :: "(string \<Rightarrow> nat option) \<Rightarrow> node \<Rightarrow> int" where
  "extract_like_count decimal soup =
     (case like_elem soup of
        Some e \<Rightarrow> (case py_int decimal (strip (text_of e)) of Some n \<Rightarrow> n | None \<Rightarrow> 0)
      | None \<Rightarrow> 0)"

definition check_if_paid :: "node \<Rightarrow> bool" where
  "check_if_paid soup =
     (find_first (\<lambda>n. is_tag ''div'' n \<and> has_class PAID_CONTENT_CLASS n) soup \<noteq> None)"

text \<open>
  \<^verbatim>\<open>_clean_content\<close>: every descendant whose tag is in \<^verbatim>\<open>REMOVE_ELEMENTS\<close> is removed, then
  every \<^verbatim>\<open>p\<close> whose stripped text is empty.
\<close>

fun remove_where :: "(node \<Rightarrow> bool) \<Rightarrow> node \<Rightarrow> node" where
  "remove_where P (NavigableString s) = NavigableString s"
| "remove_where P (Element t cs kids) =
     Element t cs (map (remove_where P) (filter (\<lambda>k. \<not> P k) kids))"

definition clean_content :: "node \<Rightarrow> node" where
  "clean_content content_div =
     remove_where (\<lambda>n. is_tag ''p'' n \<and> strip (text_of n) = [])
       (remove_where (\<lambda>n. list_ex (\<lambda>t. is_tag t n) REMOVE_ELEMENTS) content_div)"

text \<open>
  The record that \<^verbatim>\<open>extract_post_data\<close> builds. The two links are keys that the save
  steps add later; \<open>None\<close> is an absent key.
\<close>

record post_data =
  title :: string
  subtitle :: string
  date :: string
  like_count :: int
  is_paid :: bool
  content :: string
  file_link :: "string option"
  html_link :: "string option"

text \<open>
  \<open>str_of\<close> is \<^verbatim>\<open>str(element)\<close>, the library's serialisation, and \<open>decimal\<close> the table
  of decimal digits that \<^verbatim>\<open>int\<close> uses.
\<close>

definition extract_post_data ::
  "(string \<Rightarrow> nat option) \<Rightarrow> (node \<Rightarrow> string) \<Rightarrow> node \<Rightarrow> error + post_data" where
  "extract_post_data decimal str_of soup =
     (case find_content_div soup of
        None \<Rightarrow> Inl ContentError
      | Some content_div \<Rightarrow>
          Inr \<lparr> title = extract_title soup,
                subtitle = extract_subtitle content_div,
                date = extract_date soup,
                like_count = extract_like_count decimal soup,
                is_paid = check_if_paid soup,
                content = str_of (clean_content content_div),
                file_link = None,
                html_link = None \<rparr>)"

section \<open>File names: \<^verbatim>\<open>save_markdown\<close> and \<^verbatim>\<open>save_html\<close>\<close>

text \<open>The character class of \<^verbatim>\<open>re.sub(r'[<>:"/\\|?*]', '_', filename)\<close>.\<close>

definition reserved_chars :: "char list" where
  "reserved_chars =
     [CHR ''<'', CHR ''>'', CHR '':'', CHR 0x22, CHR ''/'', CHR 0x5C, CHR ''|'', CHR ''?'', CHR ''*'']"

definition re_sub_reserved :: "string \<Rightarrow> string" where
  "re_sub_reserved s = map (\<lambda>c. if c \<in> set reserved_chars then CHR ''_'' else c) s"

text \<open>
  \<^verbatim>\<open>filename = f"{post_data['date']}_{post_data['title']}{extension}"\<close> followed by the
  substitution.
\<close>

definition make_filename :: "string \<Rightarrow> string \<Rightarrow> string \<Rightarrow> string" where
  "make_filename dt ttl extension = re_sub_reserved (dt @ ''_'' @ ttl @ extension)"

definition MARKDOWN_EXTENSION :: string where
  "MARKDOWN_EXTENSION = ''.md''"

definition HTML_EXTENSION :: string where
  "HTML_EXTENSION = ''.html''"

section \<open>The JSON index: \<^verbatim>\<open>save_essays_data_to_json\<close>\<close>

text \<open>
  The merge step:
  \<^verbatim>\<open>essays_data = existing_data + [data for data in essays_data if data not in existing_data]\<close>.
  Membership is Python's equality of dictionaries, which on the records of this program
  is equality of all fields.
\<close>

definition merge_index :: "'a list \<Rightarrow> 'a list \<Rightarrow> 'a list" where
  "merge_index existing_data essays_data =
     existing_data @ filter (\<lambda>data. data \<notin> set existing_data) essays_data"

section \<open>Paths\<close>

text \<open>
  Paths are strings. \<open>path_join\<close> is the \<^verbatim>\<open>/\<close> of \<^verbatim>\<open>pathlib\<close> for the operands
  that occur here: an empty right operand leaves the path as it is, an absolute one
  replaces it.
\<close>

definition path_join :: "string \<Rightarrow> string \<Rightarrow> string" where
  "path_join p q =
     (case q of
        [] \<Rightarrow> p
      | c # _ \<Rightarrow> if c = CHR ''/'' then q else p @ ''/'' @ q)"

text \<open>
  \<^verbatim>\<open>_validate_path\<close>, the same in \<^verbatim>\<open>SubstackScraper\<close>, \<^verbatim>\<open>ContentGenerator\<close> and
  \<^verbatim>\<open>Generator\<close>. \<open>resolve\<close> is \<^verbatim>\<open>Path.resolve\<close>, which depends on the symbolic links of
  the file system; \<open>None\<close> stands for an exception. The test is a prefix test on strings,
  and every failure is a \<open>ValidationError\<close>.
\<close>

definition validate_path :: "(string \<Rightarrow> string option) \<Rightarrow> string \<Rightarrow> string \<Rightarrow> error + unit" where
  "validate_path resolve output_dir path =
     (case resolve path of
        None \<Rightarrow> Inl ValidationError
      | Some p \<Rightarrow>
          if take (length output_dir) p = output_dir then Inr () else Inl ValidationError)"

section \<open>The listing: \<^verbatim>\<open>ContentGenerator\<close>\<close>

text \<open>
  An entry of the JSON index, as the generator reads it: a JSON object in which each of
  the keys may be absent (\<open>None\<close>). The values carry the types that the scraper writes.
\<close>

record index_entry =
  entry_title :: "string option"
  entry_date :: "string option"
  entry_like_count :: "int option"
  entry_subtitle :: "string option"
  entry_is_paid :: "bool option"
  entry_file_link :: "string option"
  entry_html_link :: "string option"

text \<open>The dataclass \<^verbatim>\<open>Post\<close>.\<close>

record post =
  post_title :: string
  post_date :: string
  post_like_count :: int
  post_subtitle :: string
  post_is_paid :: bool
  post_file_link :: "string option"
  post_html_link :: "string option"

text \<open>\<^verbatim>\<open>all(key in post for key in ['title', 'date', 'like_count'])\<close>\<close>

definition has_required_keys :: "index_entry \<Rightarrow> bool" where
  "has_required_keys e =
     (entry_title e \<noteq> None \<and> entry_date e \<noteq> None \<and> entry_like_count e \<noteq> None)"

text \<open>
  The constructor call of the comprehension: \<^verbatim>\<open>post['title']\<close> raises \<open>KeyError\<close> on
  an absent key, \<^verbatim>\<open>post.get(key, default)\<close> does not.
\<close>

definition mk_post :: "index_entry \<Rightarrow> error + post" where
  "mk_post e =
     (case entry_title e of
        None \<Rightarrow> Inl KeyError
      | Some t \<Rightarrow>
          (case entry_date e of
             None \<Rightarrow> Inl KeyError
           | Some d \<Rightarrow>
               (case entry_like_count e of
                  None \<Rightarrow> Inl KeyError
                | Some n \<Rightarrow>
                    Inr \<lparr> post_title = t, post_date = d, post_like_count = n,
                          post_subtitle = (case entry_subtitle e of Some x \<Rightarrow> x | None \<Rightarrow> []),
                          post_is_paid = (case entry_is_paid e of Some b \<Rightarrow> b | None \<Rightarrow> False),
                          post_file_link = entry_file_link e,
                          post_html_link = entry_html_link e \<rparr>)))"

fun build_posts :: "index_entry list \<Rightarrow> error + post list" where
  "build_posts [] = Inr []"
| "build_posts (e # es) =
     (if has_required_keys e then
        (case mk_post e of
           Inl err \<Rightarrow> Inl err
         | Inr p \<Rightarrow> (case build_posts es of Inl err \<Rightarrow> Inl err | Inr ps \<Rightarrow> Inr (p # ps)))
      else build_posts es)"

text \<open>
  \<^verbatim>\<open>self.posts.sort(key=lambda x: x.date, reverse=True)\<close>: a stable sort on the date
  strings, largest first. Python compares strings by code point, which is the order of
  their UTF-8 bytes.
\<close>

definition sort_by_date_desc :: "post list \<Rightarrow> post list" where
  "sort_by_date_desc ps = rev (sort_key post_date (rev ps))"

text \<open>
  A file as a reader meets it: absent, failing to be opened or read, holding text that is
  not JSON, or holding the decoded content.
\<close>

datatype 'a stored = Absent | Unreadable | Undecodable | Content 'a

text \<open>
  \<^verbatim>\<open>load_posts\<close>: of the two file names the first that exists is read, after its path
  is validated. Opening and decoding are not guarded: a failure there is raised, an
  \<open>OSError\<close> of the file system or the \<open>JSONDecodeError\<close> of the decoder, which is a
  \<open>ValueError\<close>.
\<close>

definition load_posts ::
  "(string \<Rightarrow> string option) \<Rightarrow> (string \<Rightarrow> index_entry list stored) \<Rightarrow> string \<Rightarrow> string
     \<Rightarrow> error + post list" where
  "load_posts resolve json_files output_dir author_name =
     (let json_paths =
            [path_join (path_join output_dir ''data'') (author_name @ ''_essays.json''),
             path_join (path_join output_dir ''data'') (author_name @ ''.json'')] in
      case List.find (\<lambda>json_path. json_files json_path \<noteq> Absent) json_paths of
        None \<Rightarrow> Inr []
      | Some json_path \<Rightarrow>
          (case validate_path resolve output_dir json_path of
             Inl err \<Rightarrow> Inl err
           | Inr u \<Rightarrow>
               (case json_files json_path of
                  Content data \<Rightarrow>
                    (case build_posts data of
                       Inl err \<Rightarrow> Inl err
                     | Inr ps \<Rightarrow> Inr (sort_by_date_desc ps))
                | Unreadable \<Rightarrow> Inl OSError
                | Undecodable \<Rightarrow> Inl ValueError
                | Absent \<Rightarrow> Inr [])))"

text \<open>Truth of an optional string: \<open>None\<close> and the empty string are false.\<close>

definition truthy :: "string option \<Rightarrow> bool" where
  "truthy l = (case l of None \<Rightarrow> False | Some x \<Rightarrow> x \<noteq> [])"

text \<open>The posts that both renderers keep: \<^verbatim>\<open>if not post.file_link and not post.html_link: continue\<close>.\<close>

definition has_link :: "post \<Rightarrow> bool" where
  "has_link p = (truthy (post_file_link p) \<or> truthy (post_html_link p))"

text \<open>\<^verbatim>\<open>str(n)\<close> of an integer.\<close>

function nat_digits :: "nat \<Rightarrow> string" where
  "nat_digits n =
     (if n < 10 then [char_of (48 + n)] else nat_digits (n div 10) @ [char_of (48 + n mod 10)])"
  by pat_completeness auto
termination
  by (relation "measure id") auto

definition str_int :: "int \<Rightarrow> string" where
  "str_int i = (if i < 0 then CHR ''-'' # nat_digits (nat (- i)) else nat_digits (nat i))"

text \<open>\<^verbatim>\<open>link.split('/')[-1] if link else None\<close>\<close>

definition link_basename :: "string option \<Rightarrow> string option" where
  "link_basename l =
     (case l of
        None \<Rightarrow> None
      | Some x \<Rightarrow> if x = [] then None else Some (last (split_on CHR ''/'' x)))"

definition paid_indicator_md :: string where
  "paid_indicator_md = [CHR 0xF0, CHR 0x9F, CHR 0x94, CHR 0x92] @ '' Premium Article''"

definition md_section :: "post \<Rightarrow> string" where
  "md_section p =
     ''### '' @ post_title p @ [CHR 0x0A, CHR 0x0A]
     @ (if truthy (link_basename (post_file_link p))
        then ''[Markdown]('' @ (case link_basename (post_file_link p) of Some x \<Rightarrow> x | None \<Rightarrow> [])
             @ '')  '' @ [CHR 0x0A]
        else [])
     @ (if truthy (link_basename (post_html_link p))
        then ''[HTML]('' @ (case link_basename (post_html_link p) of Some x \<Rightarrow> x | None \<Rightarrow> [])
             @ '')  '' @ [CHR 0x0A]
        else [])
     @ (if post_subtitle p \<noteq> [] then ''_'' @ post_subtitle p @ ''_'' @ [CHR 0x0A, CHR 0x0A] else [])
     @ ''**Date:** '' @ post_date p @ ''  '' @ [CHR 0x0A]
     @ ''**Likes:** '' @ str_int (post_like_count p) @ ''  '' @ [CHR 0x0A]
     @ (if post_is_paid p then ''**'' @ paid_indicator_md @ ''**  '' @ [CHR 0x0A] else [])
     @ [CHR 0x0A] @ ''---'' @ [CHR 0x0A, CHR 0x0A]"

definition generate_markdown_content :: "string \<Rightarrow> post list \<Rightarrow> string" where
  "generate_markdown_content author_name posts =
     ''# '' @ author_name @ [CHR 0x27] @ ''s Blog'' @ [CHR 0x0A, CHR 0x0A]
     @ ''## Posts'' @ [CHR 0x0A, CHR 0x0A]
     @ concat (map md_section (filter has_link posts))"

text \<open>
  \<^verbatim>\<open>generate_html_content\<close>. The text of the page template is outside the model: the
  head and tail of the page and the markup of one article are parameters. What the code
  computes for each post it keeps is the link of the article: the HTML file when there is
  one, else the Markdown file.
\<close>

text \<open>\<^verbatim>\<open>Path(link).name\<close>: the last component, trailing slashes and dots dropped.\<close>

definition path_name :: "string \<Rightarrow> string" where
  "path_name x =
     (case rev (filter (\<lambda>c. c \<noteq> [] \<and> c \<noteq> ''.'') (split_on CHR ''/'' x)) of
        [] \<Rightarrow> []
      | c # _ \<Rightarrow> c)"

definition title_link_href :: "string \<Rightarrow> post \<Rightarrow> string" where
  "title_link_href author_name p =
     (let md_filename = (if truthy (post_file_link p)
                         then map_option path_name (post_file_link p) else None);
          html_filename = (if truthy (post_html_link p)
                           then map_option path_name (post_html_link p) else None) in
      if truthy html_filename
      then ''./'' @ (case html_filename of Some x \<Rightarrow> x | None \<Rightarrow> [])
      else if truthy md_filename
      then ''../substack_md_files/'' @ author_name @ ''/''
           @ (case md_filename of Some x \<Rightarrow> x | None \<Rightarrow> [])
      else ''None'')"

definition generate_html_content ::
  "(string \<Rightarrow> string) \<Rightarrow> (string \<Rightarrow> post \<Rightarrow> string) \<Rightarrow> string \<Rightarrow> string \<Rightarrow> post list \<Rightarrow> string" where
  "generate_html_content page_head article page_tail author_name posts =
     page_head author_name
     @ concat (map (\<lambda>p. article (title_link_href author_name p) p) (filter has_link posts))
     @ page_tail"

text \<open>
  Loading and rendering together, as \<^verbatim>\<open>_generate_files\<close> calls them: the HTML page and
  the Markdown page, or the exception of \<^verbatim>\<open>load_posts\<close>.
\<close>

definition render ::
  "(string \<Rightarrow> string) \<Rightarrow> (string \<Rightarrow> post \<Rightarrow> string) \<Rightarrow> string
     \<Rightarrow> (string \<Rightarrow> string option) \<Rightarrow> (string \<Rightarrow> index_entry list stored) \<Rightarrow> string \<Rightarrow> string
     \<Rightarrow> error + string \<times> string" where
  "render page_head article page_tail resolve json_files output_dir author_name =
     (case load_posts resolve json_files output_dir author_name of
        Inl err \<Rightarrow> Inl err
      | Inr posts \<Rightarrow>
          Inr (generate_html_content page_head article page_tail author_name posts,
               generate_markdown_content author_name posts))"

section \<open>The scraper's world\<close>

text \<open>
  What the scraper is given: its configuration, and the collaborators it calls. The
  network answers a \<^verbatim>\<open>GET\<close> with a status and a body, or fails in transport; the two
  parsers, the serialisation \<^verbatim>\<open>str(soup)\<close>, the decimal digits of Unicode and the MD5
  digest are library functions;
  \<open>resolve_path\<close>, \<open>can_read\<close>, \<open>can_write\<close> and \<open>can_mkdir\<close> say what the file system
  does with a path. Where a write fails, \<open>failed_write_keeps\<close> says what is left of the
  file: \<open>None\<close> when it could not be opened, and \<open>Some n\<close> when it was opened, which
  empties it, and the failure came after \<open>n\<close> characters.
\<close>

datatype response = Response nat string | Transport_failure

datatype output_mode = Both | Md | Html

record env =
  out_dir :: string
  writer :: string
  mode :: output_mode
  http_get :: "string \<Rightarrow> response"
  html_parser :: "string \<Rightarrow> node"
  lxml_parser :: "string \<Rightarrow> node option"
  to_str :: "node \<Rightarrow> string"
  unicode_decimal :: "string \<Rightarrow> nat option"
  md5_hex :: "string \<Rightarrow> string"
  resolve_path :: "string \<Rightarrow> string option"
  can_read :: "string \<Rightarrow> bool"
  can_write :: "string \<Rightarrow> bool"
  failed_write_keeps :: "string \<Rightarrow> nat option"
  can_mkdir :: "string \<Rightarrow> bool"

text \<open>
  The states of the index file \<^verbatim>\<open>data/<writer>.json\<close> that the merge distinguishes:
  absent; present but not decodable as JSON; present but failing to be read with another
  exception; holding a JSON array of post records.
\<close>

datatype index_state = No_index | Corrupt_index | Unreadable_index | Index "post_data list"

text \<open>
  What a run changes: the text files (cache entries and saved posts) by path, the
  directories made, the index file, the attributes \<^verbatim>\<open>processed_urls\<close> and \<^verbatim>\<open>results\<close>
  of the scraper, and the requests sent, in order.
\<close>

record state =
  files :: "string \<Rightarrow> string option"
  dirs :: "string list"
  index_file :: index_state
  processed_urls :: "string set"
  results :: "post_data list"
  requests :: "string list"

text \<open>The state that \<^verbatim>\<open>__init__\<close> leaves on an empty output directory.\<close>

definition initial_state :: state where
  "initial_state =
     \<lparr> files = (\<lambda>p. None), dirs = [], index_file = No_index, processed_urls = {},
       results = [], requests = [] \<rparr>"

definition mkdir :: "env \<Rightarrow> state \<Rightarrow> string \<Rightarrow> error + state" where
  "mkdir env st d =
     (if can_mkdir env d then Inr (st\<lparr>dirs := List.insert d (dirs st)\<rparr>) else Inl OSError)"

text \<open>
  \<^verbatim>\<open>with open(path, 'w') as f: f.write(text)\<close>. Files are written and read in text mode;
  the line separator of the platform is taken to be the line feed, so writing stores the
  text as it is.
\<close>

definition write_file :: "env \<Rightarrow> state \<Rightarrow> string \<Rightarrow> string \<Rightarrow> (error + unit) \<times> state" where
  "write_file env st path text =
     (if can_write env path then (Inr (), st\<lparr>files := (files st)(path \<mapsto> text)\<rparr>)
      else (Inl OSError,
            case failed_write_keeps env path of
              None \<Rightarrow> st
            | Some n \<Rightarrow> st\<lparr>files := (files st)(path \<mapsto> take n text)\<rparr>))"

text \<open>
  Reading in text mode translates the line endings: a carriage return, with the line
  feed that may follow it, arrives as one line feed.
\<close>

fun universal_newlines :: "string \<Rightarrow> string" where
  "universal_newlines [] = []"
| "universal_newlines [c] = (if c = CHR 0x0D then [CHR 0x0A] else [c])"
| "universal_newlines (c # d # cs) =
     (if c = CHR 0x0D
      then (if d = CHR 0x0A then CHR 0x0A # universal_newlines cs
            else CHR 0x0A # universal_newlines (d # cs))
      else c # universal_newlines (d # cs))"

section \<open>The cache: \<^verbatim>\<open>Cache\<close>\<close>

definition cache_path :: "env \<Rightarrow> string \<Rightarrow> string" where
  "cache_path env url = path_join (path_join (out_dir env) ''cache'') (md5_hex env url @ ''.cache'')"

text \<open>
  \<^verbatim>\<open>get_cached_soup\<close>: a file that exists is read, in text mode, and parsed with the
  \<^verbatim>\<open>lxml\<close> parser; an exception in reading or parsing is printed and the result is
  \<open>None\<close>.
\<close>

definition get_cached_soup :: "env \<Rightarrow> state \<Rightarrow> string \<Rightarrow> node option" where
  "get_cached_soup env st url =
     (let cache_file = cache_path env url in
      case files st cache_file of
        None \<Rightarrow> None
      | Some stored \<Rightarrow>
          if can_read env cache_file then lxml_parser env (universal_newlines stored) else None)"

text \<open>
  \<^verbatim>\<open>save_cached_soup\<close>: \<^verbatim>\<open>str(soup)\<close> is written; an exception is printed and dropped,
  and the file stays as the failed write left it.
\<close>

definition save_cached_soup :: "env \<Rightarrow> state \<Rightarrow> string \<Rightarrow> node \<Rightarrow> state" where
  "save_cached_soup env st url soup =
     snd (write_file env st (cache_path env url) (to_str env soup))"

section \<open>Saving a post: \<^verbatim>\<open>save_markdown\<close> and \<^verbatim>\<open>save_html\<close>\<close>

definition str_bool :: "bool \<Rightarrow> string" where
  "str_bool b = (if b then ''True'' else ''False'')"

definition markdown_text :: "post_data \<Rightarrow> string" where
  "markdown_text post_data =
     ''# '' @ title post_data @ [CHR 0x0A, CHR 0x0A]
     @ (if subtitle post_data \<noteq> [] then ''## '' @ subtitle post_data @ [CHR 0x0A, CHR 0x0A] else [])
     @ ''Date: '' @ date post_data @ [CHR 0x0A]
     @ ''Likes: '' @ str_int (like_count post_data) @ [CHR 0x0A]
     @ ''Paid: '' @ str_bool (is_paid post_data) @ [CHR 0x0A, CHR 0x0A]
     @ content post_data"

definition html_text :: "post_data \<Rightarrow> string" where
  "html_text post_data =
     ''<!DOCTYPE html>'' @ [CHR 0x0A] @ ''<html>'' @ [CHR 0x0A] @ ''<head>'' @ [CHR 0x0A]
     @ ''<title>'' @ title post_data @ ''</title>'' @ [CHR 0x0A]
     @ ''</head>'' @ [CHR 0x0A] @ ''<body>'' @ [CHR 0x0A]
     @ ''<h1>'' @ title post_data @ ''</h1>'' @ [CHR 0x0A]
     @ (if subtitle post_data \<noteq> [] then ''<h2>'' @ subtitle post_data @ ''</h2>'' @ [CHR 0x0A] else [])
     @ ''<p>Date: '' @ date post_data @ ''</p>'' @ [CHR 0x0A]
     @ ''<p>Likes: '' @ str_int (like_count post_data) @ ''</p>'' @ [CHR 0x0A]
     @ ''<p>Paid: '' @ str_bool (is_paid post_data) @ ''</p>'' @ [CHR 0x0A]
     @ content post_data
     @ [CHR 0x0A] @ ''</body>'' @ [CHR 0x0A] @ ''</html>''"

text \<open>
  The body of the \<^verbatim>\<open>try\<close> of \<^verbatim>\<open>save_markdown\<close>, with the exceptions as they are raised
  inside it: the directory is made first, then its path is validated, then the file is
  written and the link is stored in the record.
\<close>

definition md_author_dir :: "env \<Rightarrow> string" where
  "md_author_dir env = path_join (path_join (out_dir env) ''substack_md_files'') (writer env)"

definition html_author_dir :: "env \<Rightarrow> string" where
  "html_author_dir env = path_join (path_join (out_dir env) ''substack_html_pages'') (writer env)"

definition save_markdown_try :: "env \<Rightarrow> state \<Rightarrow> post_data \<Rightarrow> (error + post_data) \<times> state" where
  "save_markdown_try env st post_data =
     (let author_dir = md_author_dir env in
      case mkdir env st author_dir of
        Inl e \<Rightarrow> (Inl e, st)
      | Inr st1 \<Rightarrow>
          (case validate_path (resolve_path env) (out_dir env) author_dir of
             Inl e \<Rightarrow> (Inl e, st1)
           | Inr u \<Rightarrow>
               (let filename = make_filename (date post_data) (title post_data) MARKDOWN_EXTENSION;
                    filepath = path_join author_dir filename in
                case write_file env st1 filepath (markdown_text post_data) of
                  (Inl e, st2) \<Rightarrow> (Inl e, st2)
                | (Inr w, st2) \<Rightarrow>
                    (Inr (post_data\<lparr>file_link :=
                            Some (path_join (path_join ''substack_md_files'' (writer env)) filename)\<rparr>),
                     st2))))"

definition save_html_try :: "env \<Rightarrow> state \<Rightarrow> post_data \<Rightarrow> (error + post_data) \<times> state" where
  "save_html_try env st post_data =
     (let author_dir = html_author_dir env in
      case mkdir env st author_dir of
        Inl e \<Rightarrow> (Inl e, st)
      | Inr st1 \<Rightarrow>
          (case validate_path (resolve_path env) (out_dir env) author_dir of
             Inl e \<Rightarrow> (Inl e, st1)
           | Inr u \<Rightarrow>
               (let filename = make_filename (date post_data) (title post_data) HTML_EXTENSION;
                    filepath = path_join author_dir filename in
                case write_file env st1 filepath (html_text post_data) of
                  (Inl e, st2) \<Rightarrow> (Inl e, st2)
                | (Inr w, st2) \<Rightarrow>
                    (Inr (post_data\<lparr>html_link :=
                            Some (path_join (path_join ''substack_html_pages'' (writer env)) filename)\<rparr>),
                     st2))))"

text \<open>
  \<^verbatim>\<open>except Exception as e: raise FileSystemError(...)\<close>: whatever the body raises,
  a \<open>ValidationError\<close> too, leaves the function as a \<open>FileSystemError\<close>.
\<close>

definition as_file_system_error :: "(error + 'a) \<times> state \<Rightarrow> (error + 'a) \<times> state" where
  "as_file_system_error r =
     (case r of
        (Inl e, st) \<Rightarrow> (Inl FileSystemError, st)
      | (Inr x, st) \<Rightarrow> (Inr x, st))"

definition save_markdown :: "env \<Rightarrow> state \<Rightarrow> post_data \<Rightarrow> (error + post_data) \<times> state" where
  "save_markdown env st post_data = as_file_system_error (save_markdown_try env st post_data)"

definition save_html :: "env \<Rightarrow> state \<Rightarrow> post_data \<Rightarrow> (error + post_data) \<times> state" where
  "save_html env st post_data = as_file_system_error (save_html_try env st post_data)"

text \<open>
  \<^verbatim>\<open>save_essays_data_to_json\<close>: the path is validated, the existing index is read
  (absent or undecodable counts as empty, another failure is raised), the merge is
  computed and written. Every exception leaves as a \<open>FileSystemError\<close>. A write that
  fails after the file was opened leaves an index that cannot be decoded.
\<close>

definition index_path :: "env \<Rightarrow> string" where
  "index_path env = path_join (path_join (out_dir env) ''data'') (writer env @ ''.json'')"

definition save_essays_data_to_json_try ::
  "env \<Rightarrow> state \<Rightarrow> post_data list \<Rightarrow> (error + unit) \<times> state" where
  "save_essays_data_to_json_try env st essays_data =
     (let json_path = index_path env in
      case validate_path (resolve_path env) (out_dir env) json_path of
        Inl e \<Rightarrow> (Inl e, st)
      | Inr u \<Rightarrow>
          (case (case index_file st of
                   No_index \<Rightarrow> Inr []
                 | Corrupt_index \<Rightarrow> Inr []
                 | Unreadable_index \<Rightarrow> Inl FileSystemError
                 | Index existing_data \<Rightarrow> Inr existing_data) of
             Inl e \<Rightarrow> (Inl e, st)
           | Inr existing_data \<Rightarrow>
               if can_write env json_path
               then (Inr (), st\<lparr>index_file := Index (merge_index existing_data essays_data)\<rparr>)
               else (Inl OSError,
                     case failed_write_keeps env json_path of
                       None \<Rightarrow> st
                     | Some n \<Rightarrow> st\<lparr>index_file := Corrupt_index\<rparr>)))"

definition save_essays_data_to_json ::
  "env \<Rightarrow> state \<Rightarrow> post_data list \<Rightarrow> (error + unit) \<times> state" where
  "save_essays_data_to_json env st essays_data =
     as_file_system_error (save_essays_data_to_json_try env st essays_data)"

section \<open>The fetch pipeline\<close>

text \<open>
  The part of \<^verbatim>\<open>_process_single_url\<close> that obtains the document: the cache first, then
  a request. A status other than 200 raises \<open>NetworkError\<close>; a failure of the transport
  raises the client library's exception.
\<close>

definition fetch_soup :: "env \<Rightarrow> state \<Rightarrow> string \<Rightarrow> (error + node) \<times> state" where
  "fetch_soup env st url =
     (case get_cached_soup env st url of
        Some cached_soup \<Rightarrow> (Inr cached_soup, st)
      | None \<Rightarrow>
          (let st1 = st\<lparr>requests := requests st @ [url]\<rparr> in
           case http_get env url of
             Transport_failure \<Rightarrow> (Inl ClientError, st1)
           | Response status text \<Rightarrow>
               if status \<noteq> 200 then (Inl NetworkError, st1)
               else (let soup = html_parser env text in
                     (Inr soup, save_cached_soup env st1 url soup))))"

text \<open>The body of the \<^verbatim>\<open>try\<close> of \<^verbatim>\<open>_process_single_url\<close>.\<close>

definition process_single_url_try :: "env \<Rightarrow> state \<Rightarrow> string \<Rightarrow> (error + post_data) \<times> state" where
  "process_single_url_try env st url =
     (case fetch_soup env st url of
        (Inl e, st1) \<Rightarrow> (Inl e, st1)
      | (Inr soup, st1) \<Rightarrow>
          (case extract_post_data (unicode_decimal env) (to_str env) soup of
             Inl e \<Rightarrow> (Inl e, st1)
           | Inr post_data \<Rightarrow>
               (case (if mode env = Both \<or> mode env = Md
                      then save_markdown env st1 post_data else (Inr post_data, st1)) of
                  (Inl e, st2) \<Rightarrow> (Inl e, st2)
                | (Inr post_data2, st2) \<Rightarrow>
                    (if mode env = Both \<or> mode env = Html
                     then save_html env st2 post_data2 else (Inr post_data2, st2)))))"

text \<open>
  \<^verbatim>\<open>_process_single_url\<close>: a URL in \<^verbatim>\<open>processed_urls\<close> gives \<open>None\<close> at once; a
  \<open>NetworkError\<close> of the body gives \<open>None\<close>; any other exception is logged and raised
  again. No statement of the class adds to \<^verbatim>\<open>processed_urls\<close>.
\<close>

definition process_single_url ::
  "env \<Rightarrow> state \<Rightarrow> string \<Rightarrow> (error + post_data option) \<times> state" where
  "process_single_url env st url =
     (if url \<in> processed_urls st then (Inr None, st)
      else (case process_single_url_try env st url of
              (Inl e, st1) \<Rightarrow> if e = NetworkError then (Inr None, st1) else (Inl e, st1)
            | (Inr post_data, st1) \<Rightarrow> (Inr (Some post_data), st1)))"

text \<open>
  The loop of \<^verbatim>\<open>scrape_posts\<close> over the tasks,
  \<^verbatim>\<open>for coro in asyncio.as_completed(tasks): result = await coro; ...\<close>. The tasks are
  taken one at a time, in the order in which they complete, each running as a whole; the
  list \<open>urls\<close> is that order. Awaiting a task that raised raises its exception in the
  loop, which has no handler: the loop ends there. In the code every task is started
  before the first one is awaited, so when the loop ends with an exception the other
  tasks may already have sent their requests and written their files; the state that the
  model returns with an exception leaves these out. What the loop returns or raises does
  not depend on it.
\<close>

fun fetch_pipeline ::
  "env \<Rightarrow> state \<Rightarrow> string list \<Rightarrow> post_data list \<Rightarrow> (error + post_data list) \<times> state" where
  "fetch_pipeline env st [] essays_data = (Inr essays_data, st)"
| "fetch_pipeline env st (url # urls) essays_data =
     (case process_single_url env st url of
        (Inl e, st1) \<Rightarrow> (Inl e, st1)
      | (Inr None, st1) \<Rightarrow> fetch_pipeline env st1 urls essays_data
      | (Inr (Some result), st1) \<Rightarrow> fetch_pipeline env st1 urls (essays_data @ [result]))"

text \<open>
  \<^verbatim>\<open>process_url_batch\<close>, the other loop over \<^verbatim>\<open>_process_single_url\<close> in the class: here
  each call is inside \<^verbatim>\<open>try ... except Exception\<close>, so an exception is logged and the
  loop goes on.
\<close>

fun process_url_batch :: "env \<Rightarrow> state \<Rightarrow> string list \<Rightarrow> state" where
  "process_url_batch env st [] = st"
| "process_url_batch env st (url # urls) =
     (case process_single_url env st url of
        (Inl e, st1) \<Rightarrow> process_url_batch env st1 urls
      | (Inr None, st1) \<Rightarrow> process_url_batch env st1 urls
      | (Inr (Some result), st1) \<Rightarrow>
          process_url_batch env (st1\<lparr>results := results st1 @ [result]\<rparr>) urls)"

text \<open>\<^verbatim>\<open>self.post_urls if num_posts_to_scrape == 0 else self.post_urls[:num_posts_to_scrape]\<close>\<close>

definition urls_to_process :: "string list \<Rightarrow> int \<Rightarrow> string list" where
  "urls_to_process post_urls num_posts_to_scrape =
     (if num_posts_to_scrape = 0 then post_urls
      else if 0 < num_posts_to_scrape then take (nat num_posts_to_scrape) post_urls
      else take (nat (int (length post_urls) + num_posts_to_scrape)) post_urls)"

text \<open>
  \<^verbatim>\<open>scrape_posts\<close> from the discovered URLs on: nothing is done for an empty list;
  otherwise the tasks are run, the records merged into the index and the listing
  generated. \<open>generate\<close> is the call \<^verbatim>\<open>Generator.generate(...)\<close>. An exception of any step
  ends the function; the \<^verbatim>\<open>finally\<close> clause only closes the session.
\<close>

definition scrape_posts ::
  "(state \<Rightarrow> (error + unit) \<times> state) \<Rightarrow> env \<Rightarrow> state \<Rightarrow> string list \<Rightarrow> int
     \<Rightarrow> (error + unit) \<times> state" where
  "scrape_posts generate env st post_urls num_posts_to_scrape =
     (let urls = urls_to_process post_urls num_posts_to_scrape in
      if urls = [] then (Inr (), st)
      else (case fetch_pipeline env st urls [] of
              (Inl e, st1) \<Rightarrow> (Inl e, st1)
            | (Inr essays_data, st1) \<Rightarrow>
                (case save_essays_data_to_json env st1 essays_data of
                   (Inl e, st2) \<Rightarrow> (Inl e, st2)
                 | (Inr u, st2) \<Rightarrow> generate st2)))"

section \<open>Conditions and examples used in the statements\<close>

text \<open>The paths of the two files of a post.\<close>

definition md_file_path :: "env \<Rightarrow> post_data \<Rightarrow> string" where
  "md_file_path env post_data =
     path_join (md_author_dir env) (make_filename (date post_data) (title post_data) MARKDOWN_EXTENSION)"

definition html_file_path :: "env \<Rightarrow> post_data \<Rightarrow> string" where
  "html_file_path env post_data =
     path_join (html_author_dir env) (make_filename (date post_data) (title post_data) HTML_EXTENSION)"

text \<open>
  The file system lets both files of a post be saved: the two directories can be made
  and pass the validation, and the two files can be written.
\<close>

definition can_save :: "env \<Rightarrow> post_data \<Rightarrow> bool" where
  "can_save env post_data =
     (can_mkdir env (md_author_dir env) \<and> can_mkdir env (html_author_dir env)
      \<and> validate_path (resolve_path env) (out_dir env) (md_author_dir env) = Inr ()
      \<and> validate_path (resolve_path env) (out_dir env) (html_author_dir env) = Inr ()
      \<and> can_write env (md_file_path env post_data)
      \<and> can_write env (html_file_path env post_data))"

text \<open>
  The record of a post after the save steps of the configured output mode: the links
  that \<^verbatim>\<open>save_markdown\<close> and \<^verbatim>\<open>save_html\<close> store in it.
\<close>

definition linked_post :: "env \<Rightarrow> post_data \<Rightarrow> post_data" where
  "linked_post env post_data =
     post_data
       \<lparr> file_link :=
           (if mode env = Both \<or> mode env = Md
            then Some (path_join (path_join ''substack_md_files'' (writer env))
                         (make_filename (date post_data) (title post_data) MARKDOWN_EXTENSION))
            else file_link post_data),
         html_link :=
           (if mode env = Both \<or> mode env = Html
            then Some (path_join (path_join ''substack_html_pages'' (writer env))
                         (make_filename (date post_data) (title post_data) HTML_EXTENSION))
            else html_link post_data) \<rparr>"

text \<open>
  A small world for the examples. The page of a post has a title, a date and a content
  container; the page at \<^verbatim>\<open>/p/empty\<close> has no content container; \<^verbatim>\<open>/p/down\<close> answers
  with status 500. The stand-ins for the library are as simple as possible: the
  serialisation and the cache parser are inverse to each other on these two pages, the
  digit table holds the Arabic-Indic digits \<open>U+0660\<close> to \<open>U+0669\<close> only, and the digest
  is the URL without its slashes. No symbolic link leaves the output
  directory and every file operation succeeds.
\<close>

definition arabic_indic_decimal :: "string \<Rightarrow> nat option" where
  "arabic_indic_decimal enc =
     (case enc of
        [a, b] \<Rightarrow>
          if a = CHR 0xD9 \<and> 0xA0 \<le> (of_char b :: nat) \<and> (of_char b :: nat) \<le> 0xA9
          then Some (of_char b - 0xA0) else None
      | _ \<Rightarrow> None)"

definition example_page :: node where
  "example_page =
     Element ''html'' []
       [Element ''h1'' [] [NavigableString ''Hello''],
        Element ''time'' [] [NavigableString ''2024-01-01''],
        Element ''div'' [''body''] [Element ''p'' [] [NavigableString ''Text'']]]"

definition empty_page :: node where
  "empty_page = Element ''html'' [] [Element ''h1'' [] [NavigableString ''Nothing'']]"

definition example_env :: env where
  "example_env =
     \<lparr> out_dir = ''/out'', writer = ''example'', mode = Both,
       http_get = (\<lambda>url. if url = ''https://example.substack.com/p/down''
                          then Response 500 []
                          else if url = ''https://example.substack.com/p/empty''
                          then Response 200 ''empty''
                          else Response 200 ''post''),
       html_parser = (\<lambda>text. if text = ''post'' then example_page else empty_page),
       lxml_parser = (\<lambda>text. if text = ''post'' then Some example_page else Some empty_page),
       to_str = (\<lambda>soup. if find_content_div soup = None
                          then (if soup = empty_page then ''empty'' else ''fragment'')
                          else ''post''),
       unicode_decimal = arabic_indic_decimal,
       md5_hex = filter (\<lambda>c. c \<noteq> CHR ''/''),
       resolve_path = Some,
       can_read = (\<lambda>p. True), can_write = (\<lambda>p. True), failed_write_keeps = (\<lambda>p. None),
       can_mkdir = (\<lambda>p. True) \<rparr>"

text \<open>
  A world for the cache in which the library behaves as the real one does on a small
  document. The serialisation writes the markup of the tree; the root named
  \<^verbatim>\<open>[document]\<close> is the document itself and gives the markup of its children. The cache
  parser, given the markup of a fragment, puts it into an \<^verbatim>\<open>html\<close> and a \<^verbatim>\<open>body\<close>
  element, as \<^verbatim>\<open>lxml\<close> does.
\<close>

fun markup :: "node \<Rightarrow> string" where
  "markup (NavigableString s) = s"
| "markup (Element t cs kids) =
     (if t = ''[document]'' then concat (map markup kids)
      else ''<'' @ t
           @ (if cs = [] then []
              else '' class='' @ [CHR 0x22]
                   @ foldr (\<lambda>c r. if r = [] then c else c @ '' '' @ r) cs [] @ [CHR 0x22])
           @ ''>'' @ concat (map markup kids) @ ''</'' @ t @ ''>'')"

definition fragment_doc :: node where
  "fragment_doc = Element ''[document]'' [] [Element ''p'' [] [NavigableString ''hi'']]"

definition wrapped_doc :: node where
  "wrapped_doc =
     Element ''[document]'' []
       [Element ''html'' [] [Element ''body'' [] [Element ''p'' [] [NavigableString ''hi'']]]]"

definition wrapping_env :: env where
  "wrapping_env =
     example_env\<lparr>to_str := markup,
                 lxml_parser := (\<lambda>text. if text = ''<p>hi</p>'' then Some wrapped_doc else None)\<rparr>"

text \<open>
  The same world with a symbolic link in place of the author's Markdown directory,
  pointing out of the output directory.
\<close>

definition linked_env :: env where
  "linked_env =
     example_env\<lparr>resolve_path :=
       (\<lambda>p. if p = ''/out/substack_md_files/example'' then Some ''/elsewhere'' else Some p)\<rparr>"

text \<open>The record extracted from the example page, before and after it is saved.\<close>

definition example_post :: post_data where
  "example_post =
     \<lparr> title = ''Hello'', subtitle = [], date = ''2024-01-01'', like_count = 0, is_paid = False,
       content = ''fragment'', file_link = None, html_link = None \<rparr>"

definition example_saved_post :: post_data where
  "example_saved_post =
     example_post\<lparr>file_link := Some ''substack_md_files/example/2024-01-01_Hello.md'',
                   html_link := Some ''substack_html_pages/example/2024-01-01_Hello.html''\<rparr>"

text \<open>
  An index with three entries: two posts, the later one second, and between them an
  entry without a date.
\<close>

definition example_entries :: "index_entry list" where
  "example_entries =
     [\<lparr> entry_title = Some ''Hello'', entry_date = Some ''2024-01-01'',
         entry_like_count = Some 0, entry_subtitle = Some [], entry_is_paid = Some False,
         entry_file_link = Some ''substack_md_files/example/2024-01-01_Hello.md'',
         entry_html_link = Some ''substack_html_pages/example/2024-01-01_Hello.html'' \<rparr>,
      \<lparr> entry_title = Some ''Undated'', entry_date = None,
         entry_like_count = Some 3, entry_subtitle = None, entry_is_paid = None,
         entry_file_link = Some ''substack_md_files/example/_Undated.md'',
         entry_html_link = None \<rparr>,
      \<lparr> entry_title = Some ''Later'', entry_date = Some ''2024-02-01'',
         entry_like_count = Some 7, entry_subtitle = None, entry_is_paid = Some True,
         entry_file_link = Some ''substack_md_files/example/2024-02-01_Later.md'',
         entry_html_link = None \<rparr>]"

definition example_index_files :: "string \<Rightarrow> index_entry list stored" where
  "example_index_files =
     (\<lambda>json_path. if json_path = ''/out/data/example.json'' then Content example_entries
                   else Absent)"

definition example_posts :: "post list" where
  "example_posts =
     [\<lparr> post_title = ''Later'', post_date = ''2024-02-01'', post_like_count = 7,
         post_subtitle = [], post_is_paid = True,
         post_file_link = Some ''substack_md_files/example/2024-02-01_Later.md'',
         post_html_link = None \<rparr>,
      \<lparr> post_title = ''Hello'', post_date = ''2024-01-01'', post_like_count = 0,
         post_subtitle = [], post_is_paid = False,
         post_file_link = Some ''substack_md_files/example/2024-01-01_Hello.md'',
         post_html_link = Some ''substack_html_pages/example/2024-01-01_Hello.html'' \<rparr>]"

section \<open>Properties\<close>

subsection \<open>Writer name\<close>

lemma split_on_nonempty: "split_on sep s \<noteq> []"
  by (induction s) (auto split: list.splits)

lemma extract_main_part_middle:
  "urlparse_netloc netloc_ok url = Inr netloc
     \<Longrightarrow> extract_main_part netloc_ok url
           = Inr (split_on CHR ''.'' netloc ! (length (split_on CHR ''.'' netloc) div 2))"
  using split_on_nonempty [of "CHR ''.''" netloc]
  by (simp add: extract_main_part_def Let_def)

lemma extract_main_part_blog_example:
  "extract_main_part netloc_ok ''https://blog.example.com'' = Inr ''example''"
  by (simp add: extract_main_part_def urlparse_netloc_def strip_scheme_def splitnetloc_def
      c0_control_or_space_def unsafe_url_byte_def ascii_alpha_def scheme_char_def is_ascii_def
      Let_def)

text \<open>
  C2. The writer name is the middle part of the host split at the dots, but for
  \<^verbatim>\<open>https://example.substack.com\<close> that part is \<^verbatim>\<open>substack\<close>, not \<^verbatim>\<open>example\<close>: the host
  has three parts and index \<open>3 div 2 = 1\<close> is taken. The repository's own test expects
  \<^verbatim>\<open>example\<close> for this URL.
\<close>

theorem extract_main_part_example_substack:
  "extract_main_part netloc_ok ''https://example.substack.com'' = Inr ''substack''"
  by (simp add: extract_main_part_def urlparse_netloc_def strip_scheme_def splitnetloc_def
      c0_control_or_space_def unsafe_url_byte_def ascii_alpha_def scheme_char_def is_ascii_def
      Let_def)

subsection \<open>Like count\<close>

text \<open>What \<^verbatim>\<open>strip\<close> returns does not start with white space.\<close>

lemma strip_leading_no_prefix:
  "List.find (\<lambda>w. w \<noteq> [] \<and> take (length w) (strip_leading encs s) = w) encs = None"
proof (induction encs s rule: strip_leading.induct)
  case (1 encs s)
  show ?case
  proof (cases "List.find (\<lambda>w. w \<noteq> [] \<and> take (length w) s = w) encs")
    case None
    then have "strip_leading encs s = s" by simp
    with None show ?thesis by simp
  next
    case (Some w)
    then have "strip_leading encs s = strip_leading encs (drop (length w) s)" by simp
    with "1.IH" [OF Some] show ?thesis by simp
  qed
qed

lemma strip_leading_suffix: "\<exists>p. s = p @ strip_leading encs s"
proof (induction encs s rule: strip_leading.induct)
  case (1 encs s)
  show ?case
  proof (cases "List.find (\<lambda>w. w \<noteq> [] \<and> take (length w) s = w) encs")
    case None
    then have "strip_leading encs s = s" by simp
    then show ?thesis by simp
  next
    case (Some w)
    then have e: "strip_leading encs s = strip_leading encs (drop (length w) s)" by simp
    from "1.IH" [OF Some] obtain p
      where "drop (length w) s = p @ strip_leading encs (drop (length w) s)"
      by blast
    then have "s = (take (length w) s @ p) @ strip_leading encs s"
      using e by (metis append.assoc append_take_drop_id)
    then show ?thesis by blast
  qed
qed

lemma whitespace_nonempty: "w \<in> set whitespace_encodings \<Longrightarrow> w \<noteq> []"
  by (auto simp: whitespace_encodings_def)

lemma strip_prefix_of_lstrip: "\<exists>z. strip_leading whitespace_encodings s = strip s @ z"
proof -
  let ?x = "strip_leading whitespace_encodings s"
  obtain p where "rev ?x = p @ strip_leading (map rev whitespace_encodings) (rev ?x)"
    using strip_leading_suffix by blast
  then have "?x = rev (strip_leading (map rev whitespace_encodings) (rev ?x)) @ rev p"
    by (metis rev_append rev_rev_ident)
  then show ?thesis by (auto simp: strip_def)
qed

lemma strip_no_whitespace_prefix:
  assumes "w \<in> set whitespace_encodings"
  shows "take (length w) (strip s) \<noteq> w"
proof
  assume a: "take (length w) (strip s) = w"
  let ?x = "strip_leading whitespace_encodings s"
  obtain z where z: "?x = strip s @ z" using strip_prefix_of_lstrip by blast
  from a have "length (take (length w) (strip s)) = length w" by simp
  then have "length w \<le> length (strip s)" by simp
  with a z have "take (length w) ?x = w" by simp
  moreover have "w \<noteq> []" using assms by (rule whitespace_nonempty)
  moreover have "List.find (\<lambda>w. w \<noteq> [] \<and> take (length w) ?x = w) whitespace_encodings = None"
    by (rule strip_leading_no_prefix)
  ultimately show False using assms by (auto simp: find_None_iff)
qed

lemma py_isspace_encoding: "py_isspace c \<Longrightarrow> [c] \<in> set whitespace_encodings"
  by (auto simp: py_isspace_def whitespace_encodings_def)

text \<open>The first character that the conversion to ASCII produces.\<close>

lemma transform_head_ascii:
  assumes "(of_char c :: nat) < 127" and "decimal_and_space_to_ascii decimal (c # cs) = Some t"
  shows "\<exists>t'. t = c # t'"
  using assms by auto

lemma transform_head_other:
  assumes "\<not> (of_char c :: nat) < 127" and "decimal_and_space_to_ascii decimal (c # cs) = Some t"
  shows "(\<exists>t'. t = CHR '' '' # t' \<and> c # take (utf8_length c - 1) cs \<in> set whitespace_encodings)
       \<or> (\<exists>(v::nat) t'. v < 10 \<and> t = char_of (48 + v) # t')"
proof (cases "c # take (utf8_length c - 1) cs \<in> set whitespace_encodings")
  case True
  with assms show ?thesis by auto
next
  case False
  show ?thesis
  proof (cases "decimal (c # take (utf8_length c - 1) cs)")
    case None
    with assms False show ?thesis by simp
  next
    case (Some v)
    with assms False have "v < 10" by (simp split: if_splits)
    with assms False Some show ?thesis by auto
  qed
qed

lemma ascii_strip_head:
  assumes "rev (dropWhile P (rev (dropWhile P t))) = c # body"
  shows "\<exists>ws rest. t = ws @ c # rest \<and> list_all P ws"
proof -
  let ?y = "dropWhile P t"
  have "rev ?y = takeWhile P (rev ?y) @ dropWhile P (rev ?y)" by simp
  then have "?y = rev (dropWhile P (rev ?y)) @ rev (takeWhile P (rev ?y))"
    by (metis rev_append rev_rev_ident)
  with assms have y: "?y = c # (body @ rev (takeWhile P (rev ?y)))" by simp
  have "t = takeWhile P t @ ?y" by simp
  with y have t: "t = takeWhile P t @ c # (body @ rev (takeWhile P (rev ?y)))" by simp
  have "list_all P (takeWhile P t)"
    unfolding list_all_iff using set_takeWhileD by fast
  with t show ?thesis by blast
qed

lemma digits_value_acc:
  "0 \<le> a \<Longrightarrow> list_all ascii_digit ds \<Longrightarrow> 0 \<le> foldl (\<lambda>a c. 10 * a + digit_value c) a ds"
  by (induction ds arbitrary: a) (auto simp: digit_value_def ascii_digit_def Let_def)

lemma literal_digits_all: "literal_digits body = Some ds \<Longrightarrow> list_all ascii_digit ds"
  by (auto simp: literal_digits_def Let_def list_all_iff split: if_splits)

lemma unsigned_int_nonneg: "unsigned_int body = Some n \<Longrightarrow> 0 \<le> n"
  by (auto simp: unsigned_int_def digits_value_def split: option.splits if_splits
      dest!: literal_digits_all intro: digits_value_acc)

lemma long_from_string_negative:
  assumes "long_from_string t = Some n" and "n < 0"
  shows "\<exists>body. rev (dropWhile py_isspace (rev (dropWhile py_isspace t))) = CHR ''-'' # body"
  using assms
  by (auto simp: long_from_string_def split: list.splits if_splits dest: unsigned_int_nonneg)

lemma digit_char_plain:
  assumes "(v::nat) < 10"
  shows "char_of (48 + v) \<noteq> CHR ''-''" and "\<not> py_isspace (char_of (48 + v))"
proof -
  have o: "(of_char (char_of (48 + v)) :: nat) = 48 + v"
    using assms by (simp add: of_char_of)
  show "char_of (48 + v) \<noteq> CHR ''-''"
  proof
    assume "char_of (48 + v) = CHR ''-''"
    then have "(of_char (char_of (48 + v)) :: nat) = of_char CHR ''-''" by simp
    with o show False by simp
  qed
  show "\<not> py_isspace (char_of (48 + v))"
  proof
    assume "py_isspace (char_of (48 + v))"
    then have "(of_char (char_of (48 + v)) :: nat)
        \<in> of_char ` {CHR 0x09, CHR 0x0A, CHR 0x0B, CHR 0x0C, CHR 0x0D, CHR 0x20}"
      unfolding py_isspace_def by (rule imageI)
    with o show False by simp
  qed
qed

lemma take_encoding: "take (length (c # take m cs)) (c # cs) = c # take m cs"
  by (simp add: min_def)

text \<open>
  A stripped text that \<^verbatim>\<open>int\<close> reads as a negative number starts with the minus sign:
  only the ASCII minus is a sign, and no digit of Unicode turns into one.
\<close>

lemma py_int_negative:
  assumes "py_int decimal (strip s) = Some n" and "n < 0"
  shows "\<exists>body. strip s = CHR ''-'' # body"
proof -
  from assms(1) obtain t where t: "decimal_and_space_to_ascii decimal (strip s) = Some t"
    and l: "long_from_string t = Some n"
    by (auto simp: py_int_def split: option.splits)
  from long_from_string_negative [OF l assms(2)] obtain body where
    "rev (dropWhile py_isspace (rev (dropWhile py_isspace t))) = CHR ''-'' # body"
    by blast
  from ascii_strip_head [OF this] obtain ws rest where
    w: "t = ws @ CHR ''-'' # rest" "list_all py_isspace ws"
    by blast
  then have tne: "t \<noteq> []" by simp
  with t obtain c cs where s: "strip s = c # cs"
    by (cases "strip s") auto
  have h: "hd t = CHR ''-'' \<or> py_isspace (hd t)"
    using w by (cases ws) auto
  show ?thesis
  proof (cases "(of_char c :: nat) < 127")
    case True
    with t s obtain t' where t': "t = c # t'"
      using transform_head_ascii by metis
    with h have "c = CHR ''-'' \<or> py_isspace c" by simp
    moreover have "\<not> py_isspace c"
    proof
      assume "py_isspace c"
      then have "[c] \<in> set whitespace_encodings" by (rule py_isspace_encoding)
      from strip_no_whitespace_prefix [OF this, of s] s show False by simp
    qed
    ultimately show ?thesis using s by simp
  next
    case False
    from transform_head_other [OF False] t s
    consider (space) t' where "t = CHR '' '' # t'"
        "c # take (utf8_length c - 1) cs \<in> set whitespace_encodings"
      | (digit) v t' where "(v::nat) < 10" "t = char_of (48 + v) # t'"
      by metis
    then show ?thesis
    proof cases
      case space
      from strip_no_whitespace_prefix [OF space(2), of s] s
        take_encoding [of c "utf8_length c - 1" cs]
      show ?thesis by simp
    next
      case digit
      with h digit_char_plain [OF digit(1)] show ?thesis by simp
    qed
  qed
qed

text \<open>
  C8, as stated, fails: \<^verbatim>\<open>int\<close> accepts a sign, so the text \<^verbatim>\<open>-5\<close> in the like-count
  element gives the like count \<open>-5\<close>. The text is ASCII, so the digit table is not
  consulted.
\<close>

theorem extract_like_count_negative:
  "\<not> 0 \<le> extract_like_count arabic_indic_decimal
      (Element ''html'' [] [Element ''span'' [''like-count''] [NavigableString ''-5'']])"
  by code_simp

text \<open>
  C8, amended. Whatever the digit table, the like count is 0 when no element matches the
  like-count marker or when \<^verbatim>\<open>int\<close> rejects the stripped text of the first match, and
  the integer that \<^verbatim>\<open>int\<close> reads from it otherwise. It is negative only when that
  stripped text starts with a minus sign.
\<close>

theorem extract_like_count_cases:
  "(like_elem soup = None \<longrightarrow> extract_like_count decimal soup = 0)
   \<and> (\<forall>e. like_elem soup = Some e \<longrightarrow> py_int decimal (strip (text_of e)) = None
          \<longrightarrow> extract_like_count decimal soup = 0)
   \<and> (\<forall>e n. like_elem soup = Some e \<longrightarrow> py_int decimal (strip (text_of e)) = Some n
          \<longrightarrow> extract_like_count decimal soup = n)
   \<and> (extract_like_count decimal soup < 0
          \<longrightarrow> (\<exists>e body. like_elem soup = Some e \<and> strip (text_of e) = CHR ''-'' # body))
   \<and> (like_elem soup = None
          \<longrightarrow> \<not> list_ex (\<lambda>n. is_tag ''span'' n \<and> has_class ''like-count'' n) (descendants soup))
   \<and> (\<forall>e. like_elem soup = Some e
          \<longrightarrow> (\<exists>i < length (descendants soup). descendants soup ! i = e
                 \<and> is_tag ''span'' e \<and> has_class ''like-count'' e
                 \<and> \<not> list_ex (\<lambda>n. is_tag ''span'' n \<and> has_class ''like-count'' n)
                       (take i (descendants soup))))"
proof -
  have first: "\<exists>i < length (descendants soup). descendants soup ! i = e
                 \<and> is_tag ''span'' e \<and> has_class ''like-count'' e
                 \<and> \<not> list_ex (\<lambda>n. is_tag ''span'' n \<and> has_class ''like-count'' n)
                       (take i (descendants soup))"
    if "like_elem soup = Some e" for e
  proof -
    from that obtain i where i: "i < length (descendants soup)" "descendants soup ! i = e"
      "is_tag ''span'' e \<and> has_class ''like-count'' e"
      "\<forall>j<i. \<not> (is_tag ''span'' (descendants soup ! j)
                  \<and> has_class ''like-count'' (descendants soup ! j))"
      unfolding like_elem_def find_first_def LIKE_COUNT_CLASS_def find_Some_iff by blast
    have "\<not> list_ex (\<lambda>n. is_tag ''span'' n \<and> has_class ''like-count'' n)
            (take i (descendants soup))"
      unfolding list_ex_iff
    proof
      assume "\<exists>n \<in> set (take i (descendants soup)). is_tag ''span'' n \<and> has_class ''like-count'' n"
      then obtain n where n: "n \<in> set (take i (descendants soup))"
        "is_tag ''span'' n \<and> has_class ''like-count'' n"
        by blast
      from n(1) obtain j where "j < length (take i (descendants soup))"
        "take i (descendants soup) ! j = n"
        by (auto simp: in_set_conv_nth)
      with i(1) have "j < i" "descendants soup ! j = n" by simp_all
      with i(4) n(2) show False by blast
    qed
    with i show ?thesis by blast
  qed
  have none: "\<not> list_ex (\<lambda>n. is_tag ''span'' n \<and> has_class ''like-count'' n) (descendants soup)"
    if "like_elem soup = None"
    using that
    unfolding like_elem_def find_first_def LIKE_COUNT_CLASS_def find_None_iff list_ex_iff
    by blast
  have neg: "\<exists>e body. like_elem soup = Some e \<and> strip (text_of e) = CHR ''-'' # body"
    if "extract_like_count decimal soup < 0"
  proof (cases "like_elem soup")
    case None
    with that show ?thesis by (simp add: extract_like_count_def)
  next
    case (Some e)
    show ?thesis
    proof (cases "py_int decimal (strip (text_of e))")
      case None
      with Some that show ?thesis by (simp add: extract_like_count_def)
    next
      case (Some n)
      with \<open>like_elem soup = Some e\<close> that have "n < 0"
        by (simp add: extract_like_count_def)
      with Some py_int_negative obtain body where "strip (text_of e) = CHR ''-'' # body"
        by blast
      with \<open>like_elem soup = Some e\<close> show ?thesis by blast
    qed
  qed
  have vals: "(like_elem soup = None \<longrightarrow> extract_like_count decimal soup = 0)
      \<and> (\<forall>e. like_elem soup = Some e \<longrightarrow> py_int decimal (strip (text_of e)) = None
             \<longrightarrow> extract_like_count decimal soup = 0)
      \<and> (\<forall>e n. like_elem soup = Some e \<longrightarrow> py_int decimal (strip (text_of e)) = Some n
             \<longrightarrow> extract_like_count decimal soup = n)"
    by (simp add: extract_like_count_def)
  from neg have n: "extract_like_count decimal soup < 0
      \<longrightarrow> (\<exists>e body. like_elem soup = Some e \<and> strip (text_of e) = CHR ''-'' # body)"
    by (rule impI)
  from none have m: "like_elem soup = None
      \<longrightarrow> \<not> list_ex (\<lambda>n. is_tag ''span'' n \<and> has_class ''like-count'' n) (descendants soup)"
    by (rule impI)
  from first have f: "\<forall>e. like_elem soup = Some e
      \<longrightarrow> (\<exists>i < length (descendants soup). descendants soup ! i = e
             \<and> is_tag ''span'' e \<and> has_class ''like-count'' e
             \<and> \<not> list_ex (\<lambda>n. is_tag ''span'' n \<and> has_class ''like-count'' n)
                   (take i (descendants soup)))"
    by (intro allI impI)
  from vals n m f show ?thesis
    by (intro conjI) (elim conjE, assumption)+
qed

text \<open>
  The cases at work: a count between no-break spaces, a count in Arabic-Indic digits, a
  document without the element, and a negative count.
\<close>

theorem extract_like_count_cases_witness:
  "extract_like_count arabic_indic_decimal
      (Element ''html'' []
         [Element ''span'' [''like-count'']
            [NavigableString ([CHR 0xC2, CHR 0xA0] @ ''12'' @ [CHR 0xC2, CHR 0xA0])]]) = 12
   \<and> extract_like_count arabic_indic_decimal
      (Element ''html'' []
         [Element ''span'' [''like-count'']
            [NavigableString [CHR 0xD9, CHR 0xA1, CHR 0xD9, CHR 0xA2]]]) = 12
   \<and> extract_like_count arabic_indic_decimal (Element ''html'' [] [NavigableString ''12'']) = 0
   \<and> (\<exists>e body.
         like_elem (Element ''html'' [] [Element ''span'' [''like-count''] [NavigableString ''-5'']])
           = Some e
         \<and> strip (text_of e) = CHR ''-'' # body)"
proof -
  let ?sa = "Element ''span'' [''like-count'']
               [NavigableString ([CHR 0xC2, CHR 0xA0] @ ''12'' @ [CHR 0xC2, CHR 0xA0])]"
  let ?sd = "Element ''span'' [''like-count''] [NavigableString [CHR 0xD9, CHR 0xA1, CHR 0xD9, CHR 0xA2]]"
  let ?a = "Element ''html'' [] [?sa]"
  let ?d = "Element ''html'' [] [?sd]"
  let ?b = "Element ''html'' [] [NavigableString ''12'']"
  let ?c = "Element ''html'' [] [Element ''span'' [''like-count''] [NavigableString ''-5'']]"
  have a1: "like_elem ?a = Some ?sa"
    by code_simp
  have a2: "py_int arabic_indic_decimal (strip (text_of ?sa)) = Some 12"
    by code_simp
  have d1: "like_elem ?d = Some ?sd"
    by code_simp
  have d2: "py_int arabic_indic_decimal (strip (text_of ?sd)) = Some 12"
    by code_simp
  have b1: "like_elem ?b = None"
    by code_simp
  have c1: "extract_like_count arabic_indic_decimal ?c < 0"
    by code_simp
  have a: "extract_like_count arabic_indic_decimal ?a = 12"
    using extract_like_count_cases [of ?a arabic_indic_decimal] a1 a2 by simp
  have d: "extract_like_count arabic_indic_decimal ?d = 12"
    using extract_like_count_cases [of ?d arabic_indic_decimal] d1 d2 by simp
  have b: "extract_like_count arabic_indic_decimal ?b = 0"
    using extract_like_count_cases [of ?b arabic_indic_decimal] b1 by simp
  have c: "\<exists>e body. like_elem ?c = Some e \<and> strip (text_of e) = CHR ''-'' # body"
    using extract_like_count_cases [of ?c arabic_indic_decimal] c1 by (elim conjE) (rule mp)
  from a d b c show ?thesis
    by (intro conjI)
qed

subsection \<open>Index merge\<close>

text \<open>
  C4, as stated, fails: a record that occurs twice in the list being merged, and not in
  the index, is appended twice, and merging the list again leaves both copies.
\<close>

theorem merge_index_duplicate:
  "\<not> distinct
      (merge_index
        (merge_index []
          [\<lparr>title = ''T'', subtitle = [], date = ''2024-01-01'', like_count = 0, is_paid = False,
            content = [], file_link = None, html_link = None\<rparr>,
           \<lparr>title = ''T'', subtitle = [], date = ''2024-01-01'', like_count = 0, is_paid = False,
            content = [], file_link = None, html_link = None\<rparr>])
        [\<lparr>title = ''T'', subtitle = [], date = ''2024-01-01'', like_count = 0, is_paid = False,
          content = [], file_link = None, html_link = None\<rparr>,
         \<lparr>title = ''T'', subtitle = [], date = ''2024-01-01'', like_count = 0, is_paid = False,
          content = [], file_link = None, html_link = None\<rparr>])"
  by (simp add: merge_index_def)

text \<open>
  C4, amended. Merging the same list a second time changes nothing; the existing entries
  stay first, in their order; what is appended is exactly the records of the list that
  are not among the existing entries, in the list's order; and when neither the index
  nor the list has a duplicate, each record appears once in the result.
\<close>

theorem merge_index_idempotent:
  "merge_index (merge_index existing_data essays_data) essays_data
     = merge_index existing_data essays_data
   \<and> take (length existing_data) (merge_index existing_data essays_data) = existing_data
   \<and> drop (length existing_data) (merge_index existing_data essays_data)
       = filter (\<lambda>data. data \<notin> set existing_data) essays_data
   \<and> (distinct existing_data \<and> distinct essays_data
        \<longrightarrow> distinct (merge_index (merge_index existing_data essays_data) essays_data))"
proof -
  have idem: "merge_index (merge_index existing_data essays_data) essays_data
      = merge_index existing_data essays_data"
  proof -
    have "filter (\<lambda>data. data \<notin> set (merge_index existing_data essays_data)) essays_data = []"
      by (auto simp: merge_index_def filter_empty_conv)
    then show ?thesis
      unfolding merge_index_def [of "merge_index existing_data essays_data"] by simp
  qed
  have dist: "distinct (merge_index existing_data essays_data)"
    if "distinct existing_data" "distinct essays_data"
    using that by (auto simp: merge_index_def)
  show ?thesis
    using dist by (simp add: idem) (simp add: merge_index_def)
qed

theorem merge_index_idempotent_witness:
  "distinct [(1::nat), 2] \<and> distinct [(2::nat), 3]
   \<and> merge_index (merge_index [(1::nat), 2] [2, 3]) [2, 3] = [1, 2, 3]
   \<and> distinct (merge_index (merge_index [(1::nat), 2] [2, 3]) [2, 3])"
proof -
  have m: "merge_index [(1::nat), 2] [2, 3] = [1, 2, 3]"
    by (simp add: merge_index_def)
  show ?thesis
    using merge_index_idempotent [of "[(1::nat), 2]" "[2, 3]"] m by simp
qed

subsection \<open>The cache\<close>

lemma universal_newlines_id: "CHR 0x0D \<notin> set s \<Longrightarrow> universal_newlines s = s"
  by (induction s rule: universal_newlines.induct) auto

text \<open>
  C5, as stated, fails, with every file operation succeeding: the document of the markup
  \<^verbatim>\<open><p>hi</p>\<close> is stored as that string, and what the cache returns for it is the
  document that the cache parser builds, whose serialised form is
  \<^verbatim>\<open><html><body><p>hi</p></body></html>\<close>.
\<close>

theorem cache_put_get_reparsed:
  "get_cached_soup wrapping_env
     (save_cached_soup wrapping_env initial_state ''https://example.substack.com/p/hello''
        fragment_doc)
     ''https://example.substack.com/p/hello'' = Some wrapped_doc
   \<and> to_str wrapping_env wrapped_doc = ''<html><body><p>hi</p></body></html>''
   \<and> to_str wrapping_env fragment_doc = ''<p>hi</p>''
   \<and> to_str wrapping_env wrapped_doc \<noteq> to_str wrapping_env fragment_doc"
  by code_simp

text \<open>
  C5, amended. When the cache file of a URL can be written and read, storing a document
  puts its serialised form into the file unchanged, whatever the file held before, and
  reading the cache then returns what the cache parser makes of that string with its
  line endings translated by the read; when the serialised form has no carriage return,
  the parser is given exactly the serialised form. The cache entries of other files are
  read as before.
\<close>

theorem cache_put_get:
  assumes "can_write env (cache_path env u)" and "can_read env (cache_path env u)"
  shows "files (save_cached_soup env st u doc) (cache_path env u) = Some (to_str env doc)
       \<and> get_cached_soup env (save_cached_soup env st u doc) u
           = lxml_parser env (universal_newlines (to_str env doc))
       \<and> (CHR 0x0D \<notin> set (to_str env doc) \<longrightarrow>
            get_cached_soup env (save_cached_soup env st u doc) u
              = lxml_parser env (to_str env doc))
       \<and> (\<forall>u'. cache_path env u' \<noteq> cache_path env u \<longrightarrow>
            get_cached_soup env (save_cached_soup env st u doc) u' = get_cached_soup env st u')"
  using assms
  by (simp add: save_cached_soup_def write_file_def get_cached_soup_def Let_def
      universal_newlines_id)

theorem cache_put_get_witness:
  "files
     (save_cached_soup wrapping_env initial_state ''https://example.substack.com/p/hello''
        fragment_doc)
     (cache_path wrapping_env ''https://example.substack.com/p/hello'')
     = Some ''<p>hi</p>''
   \<and> get_cached_soup wrapping_env
       (save_cached_soup wrapping_env initial_state ''https://example.substack.com/p/hello''
          fragment_doc)
       ''https://example.substack.com/p/hello''
     = Some wrapped_doc"
proof -
  have w: "can_write wrapping_env (cache_path wrapping_env ''https://example.substack.com/p/hello'')"
    and r: "can_read wrapping_env (cache_path wrapping_env ''https://example.substack.com/p/hello'')"
    by (simp_all add: wrapping_env_def example_env_def)
  have m: "to_str wrapping_env fragment_doc = ''<p>hi</p>''"
    by code_simp
  have n: "CHR 0x0D \<notin> set ''<p>hi</p>''"
    by simp
  have l: "lxml_parser wrapping_env ''<p>hi</p>'' = Some wrapped_doc"
    by (simp add: wrapping_env_def)
  show ?thesis
    using cache_put_get [OF w r, of initial_state fragment_doc] m n l by simp
qed

text \<open>A cache file that cannot be opened for writing leaves the cache as it was.\<close>

lemma cache_write_not_opened:
  "\<not> can_write env (cache_path env u) \<Longrightarrow> failed_write_keeps env (cache_path env u) = None
     \<Longrightarrow> save_cached_soup env st u doc = st"
  by (simp add: save_cached_soup_def write_file_def split: option.splits)

subsection \<open>Path validation in the save steps\<close>

lemma as_file_system_error_not_validation:
  "fst (as_file_system_error r) \<noteq> Inl ValidationError"
  by (cases r) (auto simp: as_file_system_error_def split: sum.splits)

lemma snd_as_file_system_error: "snd (as_file_system_error r) = snd r"
  by (cases r) (auto simp: as_file_system_error_def split: sum.splits)

text \<open>No save step ever ends in a \<open>ValidationError\<close>.\<close>

lemma save_never_validation_error:
  "fst (save_markdown env st p) \<noteq> Inl ValidationError
   \<and> fst (save_html env st p) \<noteq> Inl ValidationError
   \<and> fst (save_essays_data_to_json env st ps) \<noteq> Inl ValidationError"
  by (simp add: save_markdown_def save_html_def save_essays_data_to_json_def
      as_file_system_error_not_validation)

text \<open>
  C6. With the author's Markdown directory resolving to a place outside the output
  directory, the validation inside \<^verbatim>\<open>save_markdown\<close> raises \<open>ValidationError\<close>, but the
  function itself raises \<open>FileSystemError\<close>, and the directory has been made before the
  validation.
\<close>

theorem save_markdown_escaping_path:
  "fst (save_markdown_try linked_env initial_state example_post) = Inl ValidationError
   \<and> fst (save_markdown linked_env initial_state example_post) = Inl FileSystemError
   \<and> dirs (snd (save_markdown linked_env initial_state example_post))
       = [''/out/substack_md_files/example'']
   \<and> files (snd (save_markdown linked_env initial_state example_post))
       ''/out/substack_md_files/example/2024-01-01_Hello.md'' = None"
  by code_simp

subsection \<open>The fetch pipeline\<close>

text \<open>Nothing in the pipeline changes \<^verbatim>\<open>processed_urls\<close>.\<close>

lemma processed_urls_save_cached_soup:
  "processed_urls (save_cached_soup env st url soup) = processed_urls st"
  by (simp add: save_cached_soup_def write_file_def split: option.splits)

lemma processed_urls_fetch_soup:
  "processed_urls (snd (fetch_soup env st url)) = processed_urls st"
  by (auto simp: fetch_soup_def Let_def processed_urls_save_cached_soup
      split: option.splits response.splits)

lemma processed_urls_save_markdown:
  "processed_urls (snd (save_markdown env st p)) = processed_urls st"
  by (simp add: save_markdown_def snd_as_file_system_error save_markdown_try_def Let_def
      mkdir_def write_file_def validate_path_def split: option.splits)

lemma processed_urls_save_html:
  "processed_urls (snd (save_html env st p)) = processed_urls st"
  by (simp add: save_html_def snd_as_file_system_error save_html_try_def Let_def
      mkdir_def write_file_def validate_path_def split: option.splits)

lemma processed_urls_try:
  "processed_urls (snd (process_single_url_try env st url)) = processed_urls st"
proof -
  obtain r st1 where f: "fetch_soup env st url = (r, st1)"
    by (cases "fetch_soup env st url")
  have p1: "processed_urls st1 = processed_urls st"
    using processed_urls_fetch_soup [of env st url] f by simp
  show ?thesis
  proof (cases r)
    case (Inl e)
    with f p1 show ?thesis by (simp add: process_single_url_try_def)
  next
    case (Inr soup)
    show ?thesis
    proof (cases "extract_post_data (unicode_decimal env) (to_str env) soup")
      case (Inl e)
      with f Inr p1 show ?thesis by (simp add: process_single_url_try_def)
    next
      case ex: (Inr pd)
      obtain r2 st2 where m:
        "(if mode env = Both \<or> mode env = Md
          then save_markdown env st1 pd else (Inr pd, st1)) = (r2, st2)"
        by (metis surj_pair)
      have p2: "processed_urls st2 = processed_urls st1"
        using m processed_urls_save_markdown [of env st1 pd] by (auto split: if_splits)
      show ?thesis
      proof (cases r2)
        case (Inl e)
        with f Inr ex m p1 p2 show ?thesis by (simp add: process_single_url_try_def)
      next
        case r2: (Inr pd2)
        with f Inr ex m p1 p2 processed_urls_save_html [of env st2 pd2]
        show ?thesis by (simp add: process_single_url_try_def)
      qed
    qed
  qed
qed

lemma processed_urls_process_single_url:
  "processed_urls (snd (process_single_url env st url)) = processed_urls st"
proof (cases "process_single_url_try env st url")
  case (Pair r st1)
  with processed_urls_try [of env st url] have "processed_urls st1 = processed_urls st"
    by simp
  with Pair show ?thesis by (cases r) (simp_all add: process_single_url_def)
qed

lemma processed_urls_fetch_pipeline:
  "processed_urls (snd (fetch_pipeline env st urls acc)) = processed_urls st"
proof (induction urls arbitrary: st acc)
  case Nil
  then show ?case by simp
next
  case (Cons url urls)
  obtain r st1 where p: "process_single_url env st url = (r, st1)"
    by (metis surj_pair)
  then have "processed_urls st1 = processed_urls st"
    using processed_urls_process_single_url [of env st url] by simp
  with p Cons show ?case by (auto split: sum.splits option.splits)
qed

text \<open>
  C3. \<^verbatim>\<open>processed_urls\<close> starts empty and is never added to, so the test at the head
  of \<^verbatim>\<open>_process_single_url\<close> never holds: a URL that occurs twice in the list is
  processed twice and gives two records.
\<close>

theorem duplicate_url_processed_twice:
  "fst (fetch_pipeline example_env initial_state
          [''https://example.substack.com/p/hello'', ''https://example.substack.com/p/hello''] [])
     = Inr [example_saved_post, example_saved_post]
   \<and> processed_urls (snd (fetch_pipeline example_env initial_state
          [''https://example.substack.com/p/hello'', ''https://example.substack.com/p/hello''] []))
     = {}"
proof (intro conjI)
  show "fst (fetch_pipeline example_env initial_state
          [''https://example.substack.com/p/hello'', ''https://example.substack.com/p/hello''] [])
     = Inr [example_saved_post, example_saved_post]"
    by code_simp
  show "processed_urls (snd (fetch_pipeline example_env initial_state
          [''https://example.substack.com/p/hello'', ''https://example.substack.com/p/hello''] []))
     = {}"
    unfolding processed_urls_fetch_pipeline by (simp add: initial_state_def)
qed

text \<open>
  C1. A page without a content container makes \<^verbatim>\<open>_process_single_url\<close> raise
  \<open>ContentError\<close>. The loop of \<^verbatim>\<open>scrape_posts\<close> does not catch it: the run ends with that
  exception, whichever of the two tasks completes first, and the index is not written.
  The loop of \<^verbatim>\<open>process_url_batch\<close> on the same URLs goes on and keeps the record of
  the other URL.
\<close>

theorem scrape_posts_content_error:
  "fst (scrape_posts (\<lambda>st. (Inr (), st)) example_env initial_state
          [''https://example.substack.com/p/empty'', ''https://example.substack.com/p/hello''] 0)
     = Inl ContentError
   \<and> fst (scrape_posts (\<lambda>st. (Inr (), st)) example_env initial_state
          [''https://example.substack.com/p/hello'', ''https://example.substack.com/p/empty''] 0)
     = Inl ContentError
   \<and> index_file (snd (scrape_posts (\<lambda>st. (Inr (), st)) example_env initial_state
          [''https://example.substack.com/p/hello'', ''https://example.substack.com/p/empty''] 0))
     = No_index
   \<and> results (process_url_batch example_env initial_state
          [''https://example.substack.com/p/empty'', ''https://example.substack.com/p/hello''])
     = [example_saved_post]"
  by code_simp

text \<open>One URL that fails with a status other than 200, and one that succeeds.\<close>

lemma get_cached_soup_absent:
  "files st (cache_path env u) = None \<Longrightarrow> get_cached_soup env st u = None"
  by (simp add: get_cached_soup_def)

lemma process_failing_url:
  assumes "bad \<notin> processed_urls st" and "get_cached_soup env st bad = None"
    and "http_get env bad = Response status body" and "status \<noteq> 200"
  shows "process_single_url env st bad = (Inr None, st\<lparr>requests := requests st @ [bad]\<rparr>)"
  using assms
  by (simp add: process_single_url_def process_single_url_try_def fetch_soup_def Let_def)

lemma fetch_soup_ok:
  assumes "get_cached_soup env st good = None" and "http_get env good = Response 200 text"
  shows "fetch_soup env st good =
     (Inr (html_parser env text),
      save_cached_soup env (st\<lparr>requests := requests st @ [good]\<rparr>) good (html_parser env text))"
  using assms by (simp add: fetch_soup_def Let_def)

lemma save_markdown_ok:
  assumes "can_mkdir env (md_author_dir env)"
    and "validate_path (resolve_path env) (out_dir env) (md_author_dir env) = Inr ()"
    and "can_write env (md_file_path env p)"
  shows "save_markdown env st p =
     (Inr (p\<lparr>file_link := Some (path_join (path_join ''substack_md_files'' (writer env))
                         (make_filename (date p) (title p) MARKDOWN_EXTENSION))\<rparr>),
      st\<lparr>dirs := List.insert (md_author_dir env) (dirs st),
         files := (files st)(md_file_path env p \<mapsto> markdown_text p)\<rparr>)"
  using assms
  by (simp add: save_markdown_def save_markdown_try_def as_file_system_error_def Let_def
      mkdir_def write_file_def md_file_path_def)

lemma save_html_ok:
  assumes "can_mkdir env (html_author_dir env)"
    and "validate_path (resolve_path env) (out_dir env) (html_author_dir env) = Inr ()"
    and "can_write env (html_file_path env p)"
  shows "save_html env st p =
     (Inr (p\<lparr>html_link := Some (path_join (path_join ''substack_html_pages'' (writer env))
                         (make_filename (date p) (title p) HTML_EXTENSION))\<rparr>),
      st\<lparr>dirs := List.insert (html_author_dir env) (dirs st),
         files := (files st)(html_file_path env p \<mapsto> html_text p)\<rparr>)"
  using assms
  by (simp add: save_html_def save_html_try_def as_file_system_error_def Let_def
      mkdir_def write_file_def html_file_path_def)

lemma html_file_path_file_link:
  "html_file_path env (p\<lparr>file_link := l\<rparr>) = html_file_path env p"
  by (simp add: html_file_path_def)

lemma process_good_url:
  assumes "good \<notin> processed_urls st" and "get_cached_soup env st good = None"
    and "http_get env good = Response 200 text"
    and "extract_post_data (unicode_decimal env) (to_str env) (html_parser env text) = Inr p"
    and "can_save env p"
  shows "fst (process_single_url env st good) = Inr (Some (linked_post env p))"
    and "requests (snd (process_single_url env st good)) = requests st @ [good]"
    and "q \<notin> {cache_path env good, md_file_path env p, html_file_path env p}
          \<Longrightarrow> files (snd (process_single_url env st good)) q = files st q"
proof -
  let ?st1 = "save_cached_soup env (st\<lparr>requests := requests st @ [good]\<rparr>) good
                (html_parser env text)"
  have f: "fetch_soup env st good = (Inr (html_parser env text), ?st1)"
    using assms(2,3) by (rule fetch_soup_ok)
  have r1: "requests ?st1 = requests st @ [good]"
    by (simp add: save_cached_soup_def write_file_def split: option.splits)
  have f1: "x \<noteq> cache_path env good \<Longrightarrow> files ?st1 x = files st x" for x
    by (simp add: save_cached_soup_def write_file_def split: option.splits)
  have md: "save_markdown env s p =
     (Inr (p\<lparr>file_link := Some (path_join (path_join ''substack_md_files'' (writer env))
                         (make_filename (date p) (title p) MARKDOWN_EXTENSION))\<rparr>),
      s\<lparr>dirs := List.insert (md_author_dir env) (dirs s),
         files := (files s)(md_file_path env p \<mapsto> markdown_text p)\<rparr>)" for s
    using assms(5) by (intro save_markdown_ok) (simp_all add: can_save_def)
  have ht: "save_html env s p' =
     (Inr (p'\<lparr>html_link := Some (path_join (path_join ''substack_html_pages'' (writer env))
                         (make_filename (date p') (title p') HTML_EXTENSION))\<rparr>),
      s\<lparr>dirs := List.insert (html_author_dir env) (dirs s),
         files := (files s)(html_file_path env p' \<mapsto> html_text p')\<rparr>)"
    if "html_file_path env p' = html_file_path env p" for s p'
    using assms(5) that by (intro save_html_ok) (simp_all add: can_save_def)
  show "fst (process_single_url env st good) = Inr (Some (linked_post env p))"
    using assms(1,4) f
    by (cases "mode env")
      (simp_all add: process_single_url_def process_single_url_try_def md ht linked_post_def
        html_file_path_file_link)
  show "requests (snd (process_single_url env st good)) = requests st @ [good]"
    using assms(1,4) f r1
    by (cases "mode env")
      (simp_all add: process_single_url_def process_single_url_try_def md ht
        html_file_path_file_link)
  show "files (snd (process_single_url env st good)) q = files st q"
    if "q \<notin> {cache_path env good, md_file_path env p, html_file_path env p}"
    using assms(1,4) f f1 [of q] that
    by (cases "mode env")
      (simp_all add: process_single_url_def process_single_url_try_def md ht
        html_file_path_file_link)
qed

text \<open>
  C7. Two URLs, neither of them cached: one is answered with a status other than 200,
  the other with status 200 and a page from which a record is extracted, and the file
  system lets the record be saved. Then, whichever task completes first, the pipeline
  raises nothing and returns exactly the record of the second URL, and each of the two
  URLs has been requested once.
\<close>

theorem one_failing_url:
  assumes "bad \<notin> processed_urls st" and "good \<notin> processed_urls st"
    and "files st (cache_path env bad) = None"
    and "get_cached_soup env st good = None"
    and "cache_path env bad \<notin> {cache_path env good, md_file_path env p, html_file_path env p}"
    and "http_get env bad = Response status body" and "status \<noteq> 200"
    and "http_get env good = Response 200 text"
    and "extract_post_data (unicode_decimal env) (to_str env) (html_parser env text) = Inr p"
    and "can_save env p"
    and "urls = [bad, good] \<or> urls = [good, bad]"
  shows "fst (fetch_pipeline env st urls []) = Inr [linked_post env p]
       \<and> requests (snd (fetch_pipeline env st urls [])) = requests st @ urls"
proof -
  have bad_first: ?thesis if u: "urls = [bad, good]"
  proof -
    let ?st1 = "st\<lparr>requests := requests st @ [bad]\<rparr>"
    have b: "process_single_url env st bad = (Inr None, ?st1)"
      using assms(1) get_cached_soup_absent [OF assms(3)] assms(6,7)
      by (rule process_failing_url)
    have c: "get_cached_soup env ?st1 good = None"
      using assms(4) by (simp add: get_cached_soup_def)
    have g1: "fst (process_single_url env ?st1 good) = Inr (Some (linked_post env p))"
      using assms(2) c assms(8,9,10) by (intro process_good_url(1)) simp_all
    have g2: "requests (snd (process_single_url env ?st1 good)) = requests ?st1 @ [good]"
      using assms(2) c assms(8,9,10) by (intro process_good_url(2)) simp_all
    obtain st2 where g: "process_single_url env ?st1 good = (Inr (Some (linked_post env p)), st2)"
      using g1 by (cases "process_single_url env ?st1 good") simp
    with g2 have "requests st2 = requests st @ [bad, good]" by simp
    with b g u show ?thesis by simp
  qed
  have good_first: ?thesis if u: "urls = [good, bad]"
  proof -
    have g1: "fst (process_single_url env st good) = Inr (Some (linked_post env p))"
      using assms(2,4,8,9,10) by (rule process_good_url(1))
    have g2: "requests (snd (process_single_url env st good)) = requests st @ [good]"
      using assms(2,4,8,9,10) by (rule process_good_url(2))
    have g3: "files (snd (process_single_url env st good)) (cache_path env bad)
                = files st (cache_path env bad)"
      using assms(2,4,8,9,10,5) by (rule process_good_url(3))
    obtain st1 where g: "process_single_url env st good = (Inr (Some (linked_post env p)), st1)"
      using g1 by (cases "process_single_url env st good") simp
    have p1: "bad \<notin> processed_urls st1"
      using processed_urls_process_single_url [of env st good] g assms(1) by simp
    have c1: "get_cached_soup env st1 bad = None"
      using g3 g assms(3) by (simp add: get_cached_soup_absent)
    have b: "process_single_url env st1 bad = (Inr None, st1\<lparr>requests := requests st1 @ [bad]\<rparr>)"
      using p1 c1 assms(6,7) by (rule process_failing_url)
    from g2 g have "requests st1 = requests st @ [good]" by simp
    with b g u show ?thesis by simp
  qed
  from assms(11) bad_first good_first show ?thesis by blast
qed

lemma example_extract:
  "extract_post_data (unicode_decimal example_env) (to_str example_env) (html_parser example_env ''post'') = Inr example_post"
  by code_simp

lemma example_can_save: "can_save example_env example_post"
  by code_simp

lemma example_paths_differ:
  "cache_path example_env ''https://example.substack.com/p/down''
     \<notin> {cache_path example_env ''https://example.substack.com/p/hello'',
         md_file_path example_env example_post, html_file_path example_env example_post}"
  by code_simp

lemma example_linked_post: "linked_post example_env example_post = example_saved_post"
  by code_simp

theorem one_failing_url_witness:
  "fst (fetch_pipeline example_env initial_state
          [''https://example.substack.com/p/down'', ''https://example.substack.com/p/hello''] [])
     = Inr [example_saved_post]
   \<and> requests (snd (fetch_pipeline example_env initial_state
          [''https://example.substack.com/p/hello'', ''https://example.substack.com/p/down''] []))
     = [''https://example.substack.com/p/hello'', ''https://example.substack.com/p/down'']"
proof -
  let ?bad = "''https://example.substack.com/p/down''"
  let ?good = "''https://example.substack.com/p/hello''"
  have h1: "?bad \<notin> processed_urls initial_state" "?good \<notin> processed_urls initial_state"
    by (simp_all add: initial_state_def)
  have h3: "files initial_state (cache_path example_env ?bad) = None"
    by (simp add: initial_state_def)
  have h4: "get_cached_soup example_env initial_state ?good = None"
    by (simp add: initial_state_def get_cached_soup_def)
  have h6: "http_get example_env ?bad = Response 500 []"
    by (simp add: example_env_def)
  have h7: "(500::nat) \<noteq> 200"
    by simp
  have h8: "http_get example_env ?good = Response 200 ''post''"
    by (simp add: example_env_def)
  have r: "requests initial_state = []"
    by (simp add: initial_state_def)
  show ?thesis
    using one_failing_url [OF h1 h3 h4 example_paths_differ h6 h7 h8 example_extract
        example_can_save, of "[?bad, ?good]"]
      one_failing_url [OF h1 h3 h4 example_paths_differ h6 h7 h8 example_extract
        example_can_save, of "[?good, ?bad]"]
      example_linked_post r
    by simp
qed

subsection \<open>The listing\<close>

lemma mk_post_ok: "has_required_keys e \<Longrightarrow> \<exists>p. mk_post e = Inr p"
  by (auto simp: has_required_keys_def mk_post_def split: option.splits)

lemma build_posts_filter: "build_posts (filter has_required_keys data) = build_posts data"
  by (induction data) (auto split: sum.splits)

text \<open>The comprehension never raises: one post is built for each entry that has the keys.\<close>

lemma build_posts_total:
  "\<exists>ps. build_posts data = Inr ps \<and> length ps = length (filter has_required_keys data)"
proof (induction data)
  case Nil
  then show ?case by simp
next
  case (Cons e es)
  then obtain ps where ps: "build_posts es = Inr ps"
    "length ps = length (filter has_required_keys es)"
    by blast
  show ?case
  proof (cases "has_required_keys e")
    case True
    then obtain p where "mk_post e = Inr p" using mk_post_ok by blast
    with True ps show ?thesis by simp
  next
    case False
    with ps show ?thesis by simp
  qed
qed

lemma build_posts_origin:
  "build_posts data = Inr ps \<Longrightarrow> p \<in> set ps
     \<Longrightarrow> \<exists>e \<in> set data. has_required_keys e \<and> mk_post e = Inr p"
proof (induction data arbitrary: ps)
  case Nil
  then show ?case by simp
next
  case (Cons e es)
  show ?case
  proof (cases "has_required_keys e")
    case False
    with Cons show ?thesis by auto
  next
    case True
    then obtain p0 where p0: "mk_post e = Inr p0" using mk_post_ok by blast
    obtain ps0 where ps0: "build_posts es = Inr ps0" using build_posts_total by blast
    with True p0 Cons.prems(1) have "ps = p0 # ps0" by simp
    with Cons.prems(2) have "p = p0 \<or> p \<in> set ps0" by auto
    then show ?thesis
    proof
      assume "p = p0"
      with True p0 show ?thesis by auto
    next
      assume "p \<in> set ps0"
      with Cons.IH [OF ps0] show ?thesis by auto
    qed
  qed
qed

lemma set_sort_by_date_desc: "set (sort_by_date_desc ps) = set ps"
  by (simp add: sort_by_date_desc_def)

lemma load_posts_filter:
  assumes "json_files q = Content data"
  shows "load_posts resolve (json_files(q := Content (filter has_required_keys data)))
           output_dir author_name
       = load_posts resolve json_files output_dir author_name"
  using assms
  by (auto simp: load_posts_def Let_def build_posts_filter
      split: option.splits sum.splits stored.splits)

lemma load_posts_no_key_error:
  "load_posts resolve json_files output_dir author_name \<noteq> Inl KeyError"
proof -
  have v: "validate_path resolve output_dir q \<noteq> Inl KeyError" for q
    by (simp add: validate_path_def split: option.splits)
  have b: "build_posts data \<noteq> Inl KeyError" for data
    using build_posts_total [of data] by auto
  show ?thesis
    using v b
    by (auto simp: load_posts_def Let_def split: option.splits sum.splits stored.splits)
qed

lemma load_posts_cases:
  "load_posts resolve json_files output_dir author_name = Inr ps
     \<Longrightarrow> ps = [] \<or> (\<exists>q data ps0. json_files q = Content data \<and> build_posts data = Inr ps0
                        \<and> ps = sort_by_date_desc ps0)"
  unfolding load_posts_def Let_def
  by (simp split: option.splits sum.splits stored.splits) blast

lemma load_posts_origin:
  assumes "load_posts resolve json_files output_dir author_name = Inr ps" and "p \<in> set ps"
  shows "\<exists>q data. json_files q = Content data
           \<and> (\<exists>e \<in> set data. has_required_keys e \<and> mk_post e = Inr p)"
proof -
  from load_posts_cases [OF assms(1)] assms(2)
  obtain q data ps0 where q: "json_files q = Content data" "build_posts data = Inr ps0"
    "ps = sort_by_date_desc ps0"
    by auto
  with assms(2) have "p \<in> set ps0" by (simp add: set_sort_by_date_desc)
  with build_posts_origin [OF q(2)] q(1) show ?thesis by blast
qed

text \<open>
  C10. Whatever index file holds the entries \<open>data\<close>, the loaded posts and both rendered
  pages are the same as for the file with the entries that lack one of the keys
  \<^verbatim>\<open>title\<close>, \<^verbatim>\<open>date\<close>, \<^verbatim>\<open>like_count\<close> taken out; loading never raises \<open>KeyError\<close>; and
  every loaded post is built from an entry that has all three keys.
\<close>

theorem load_posts_requires_keys:
  assumes "json_files q = Content data"
  shows "load_posts resolve (json_files(q := Content (filter has_required_keys data)))
           output_dir author_name
         = load_posts resolve json_files output_dir author_name
       \<and> render page_head article page_tail resolve
           (json_files(q := Content (filter has_required_keys data))) output_dir author_name
         = render page_head article page_tail resolve json_files output_dir author_name
       \<and> load_posts resolve json_files output_dir author_name \<noteq> Inl KeyError
       \<and> (\<forall>ps p. load_posts resolve json_files output_dir author_name = Inr ps \<longrightarrow> p \<in> set ps
            \<longrightarrow> (\<exists>q' data'. json_files q' = Content data'
                   \<and> (\<exists>e \<in> set data'. has_required_keys e \<and> mk_post e = Inr p)))"
proof -
  have f: "load_posts resolve (json_files(q := Content (filter has_required_keys data)))
             output_dir author_name
           = load_posts resolve json_files output_dir author_name"
    using assms
    by (rule load_posts_filter [where json_files = json_files and q = q and data = data])
  have o: "\<exists>q' data'. json_files q' = Content data'
             \<and> (\<exists>e \<in> set data'. has_required_keys e \<and> mk_post e = Inr p)"
    if "load_posts resolve json_files output_dir author_name = Inr ps" and "p \<in> set ps"
    for ps p
    using that by (rule load_posts_origin)
  show ?thesis
    using f o load_posts_no_key_error [of resolve json_files output_dir author_name]
    by (simp add: render_def)
qed

lemma example_load_posts:
  "load_posts Some example_index_files ''/out'' ''example'' = Inr example_posts"
  by code_simp

theorem load_posts_requires_keys_witness:
  "example_index_files ''/out/data/example.json'' = Content example_entries
   \<and> length (filter has_required_keys example_entries) = 2
   \<and> load_posts Some
       (example_index_files(''/out/data/example.json'' :=
          Content (filter has_required_keys example_entries)))
       ''/out'' ''example''
     = Inr example_posts"
proof -
  have h: "example_index_files ''/out/data/example.json'' = Content example_entries"
    by (simp add: example_index_files_def)
  have n: "length (filter has_required_keys example_entries) = 2"
    by code_simp
  show ?thesis
    using load_posts_requires_keys [where json_files = example_index_files
        and q = "''/out/data/example.json''" and data = example_entries
        and resolve = Some and output_dir = "''/out''" and author_name = "''example''"]
      example_load_posts h n
    by simp
qed

subsection \<open>File names\<close>

text \<open>
  C9. For every date, title and extension the file name is the string
  \<^verbatim>\<open><date>_<title><extension>\<close> in which each of the nine characters
  \<^verbatim>\<open>< > : " / \ | ? *\<close> is replaced by an underscore and every other character is kept,
  and none of the nine characters is left in it.
\<close>

theorem make_filename_sanitized:
  "make_filename dt ttl extension =
     map (\<lambda>c. if c \<in> {CHR ''<'', CHR ''>'', CHR '':'', CHR 0x22, CHR ''/'', CHR 0x5C,
                       CHR ''|'', CHR ''?'', CHR ''*''}
               then CHR ''_'' else c)
       (dt @ ''_'' @ ttl @ extension)
   \<and> set (make_filename dt ttl extension)
       \<inter> {CHR ''<'', CHR ''>'', CHR '':'', CHR 0x22, CHR ''/'', CHR 0x5C,
          CHR ''|'', CHR ''?'', CHR ''*''} = {}
   \<and> length (make_filename dt ttl extension) = length dt + 1 + length ttl + length extension"
  by (auto simp: make_filename_def re_sub_reserved_def reserved_chars_def)

end
